theory Spec2Isabelle
  imports Complex_Main "HOL-Library.AList"
begin

section \<open>Progress, level and badge ledger (backend/database/progress_manager.py)\<close>

text \<open>
  A shallow embedding of \<^verbatim>\<open>ProgressManager\<close> and of the dataclasses it stores.

  Conventions of the embedding.
  \<^item> A Python \<^verbatim>\<open>str\<close> is a \<^typ>\<open>string\<close> holding the UTF-8 bytes of the text (the encoding
    the module reads and writes its file with). The source only copies and compares its
    strings, and tests one for containing another. Literals outside ASCII are written as
    their code points with \<open>unicode\<close>.
  \<^item> A Python \<^verbatim>\<open>float\<close> is the \<^typ>\<open>real\<close> it stands for. Comparisons are exact; an
    arithmetic operation gives the double nearest to the exact result (\<open>double_round\<close>). NaN,
    the infinities and an operation that overflows to one are outside the model.
  \<^item> A naive \<^verbatim>\<open>datetime\<close> is the number of microseconds on its time line, an \<^typ>\<open>int\<close>;
    \<^verbatim>\<open>timedelta(days=n)\<close> is \<open>n\<close> days of microseconds. The clock is far from the ends of
    the range of \<^verbatim>\<open>datetime\<close>, so taking 7 or 30 days off it never raises.
  \<^item> \<^verbatim>\<open>datetime.now()\<close> reads a clock. An operation takes the clock \<open>clk\<close> of its call:
    \<open>clk k\<close> is what the \<open>k\<close>-th read of that call returns, and the number of reads made
    so far is threaded through the helpers.
  \<^item> A Python \<^verbatim>\<open>dict\<close> is an association list in insertion order; assignment to a key is
    \<^const>\<open>AList.update\<close> (in place for a key that is present, at the end for a new one).
\<close>

subsection \<open>Strings\<close>

definition utf8_encode :: "nat \<Rightarrow> string" where
  "utf8_encode c =
     (if c < 0x80 then [char_of c]
      else if c < 0x800 then [char_of (0xC0 + c div 64), char_of (0x80 + c mod 64)]
      else if c < 0x10000 then
        [char_of (0xE0 + c div 4096), char_of (0x80 + c div 64 mod 64), char_of (0x80 + c mod 64)]
      else
        [char_of (0xF0 + c div 262144), char_of (0x80 + c div 4096 mod 64),
         char_of (0x80 + c div 64 mod 64), char_of (0x80 + c mod 64)])"

definition unicode :: "nat list \<Rightarrow> string" where
  "unicode cs = concat (map utf8_encode cs)"

text \<open>\<^verbatim>\<open>str(n)\<close> for an integer: decimal digits, with a minus sign below zero.\<close>

fun str_nat :: "nat \<Rightarrow> string" where
  "str_nat n =
     (if n < 10 then [''0123456789'' ! n] else str_nat (n div 10) @ [''0123456789'' ! (n mod 10)])"

definition str_int :: "int \<Rightarrow> string" where
  "str_int i = (if i < 0 then CHR ''-'' # str_nat (nat (- i)) else str_nat (nat i))"

text \<open>\<^verbatim>\<open>sub in s\<close> on strings.\<close>

fun starts_with :: "string \<Rightarrow> string \<Rightarrow> bool" where
  "starts_with s [] = True"
| "starts_with [] (c # sub) = False"
| "starts_with (d # s) (c # sub) = (d = c \<and> starts_with s sub)"

fun str_contains :: "string \<Rightarrow> string \<Rightarrow> bool" where
  "str_contains [] sub = (sub = [])"
| "str_contains (d # s) sub = (starts_with (d # s) sub \<or> str_contains s sub)"

subsection \<open>Floats\<close>

text \<open>
  The arithmetic of Python floats is that of IEEE 754 doubles: the exact result is rounded
  to the nearest double, a tie going to the one with the even significand. A double has a
  significand of 53 bits, so the doubles of the binade \<open>2^e \<le> |x| < 2^(e+1)\<close> are the
  multiples of \<open>2^(e-52)\<close>; below \<open>2^(-1022)\<close> they are the multiples of \<open>2^(-1074)\<close>.
\<close>

fun floor_log2 :: "nat \<Rightarrow> nat" where
  "floor_log2 n = (if n < 2 then 0 else Suc (floor_log2 (n div 2)))"

text \<open>The \<open>e\<close> with \<open>2^e \<le> |x| < 2^(e+1)\<close>, for \<open>x\<close> other than zero.\<close>

definition binade :: "real \<Rightarrow> int" where
  "binade x =
     (if \<bar>x\<bar> \<ge> 1 then int (floor_log2 (nat \<lfloor>\<bar>x\<bar>\<rfloor>))
      else (let n = nat \<lceil>1 / \<bar>x\<bar>\<rceil>
            in if n \<le> 1 then 0 else - int (Suc (floor_log2 (n - 1)))))"

definition round_half_even :: "real \<Rightarrow> int" where
  "round_half_even x =
     (let f = \<lfloor>x\<rfloor>; d = x - of_int f
      in if d < 1 / 2 then f else if d > 1 / 2 then f + 1 else if even f then f else f + 1)"

definition double_round :: "real \<Rightarrow> real" where
  "double_round x =
     (if x = 0 then 0
      else (let e = max (binade x) (- 1022) - 52;
                u = (if e \<ge> 0 then 2 ^ nat e else 1 / 2 ^ nat (- e))
            in of_int (round_half_even (x / u)) * u))"

text \<open>\<^verbatim>\<open>a - b\<close>, \<^verbatim>\<open>a / b\<close> (for \<open>b\<close> other than zero) and \<^verbatim>\<open>a * b\<close> on floats.\<close>

definition float_sub :: "real \<Rightarrow> real \<Rightarrow> real" where
  "float_sub a b = double_round (a - b)"

definition float_div :: "real \<Rightarrow> real \<Rightarrow> real" where
  "float_div a b = double_round (a / b)"

definition float_mul :: "real \<Rightarrow> real \<Rightarrow> real" where
  "float_mul a b = double_round (a * b)"

text \<open>
  \<^verbatim>\<open>round(x, 1)\<close> on a float: the exact value of \<open>x\<close> is rounded to the nearest multiple of
  one tenth, a tie going to the even one, and the result is the double nearest to that
  decimal.
\<close>

definition py_round1 :: "real \<Rightarrow> real" where
  "py_round1 x = double_round (of_int (round_half_even (x * 10)) / 10)"

subsection \<open>Time\<close>

type_synonym datetime = int

type_synonym clock = "nat \<Rightarrow> datetime"

definition timedelta_days :: "int \<Rightarrow> int" where
  "timedelta_days n = n * 86400000000"

subsection \<open>Values of dictionaries and of the JSON file\<close>

text \<open>
  The dictionaries the module builds (\<^verbatim>\<open>to_dict\<close>, the snapshot of
  \<^verbatim>\<open>get_user_progress\<close>, the object written by \<^verbatim>\<open>_save_data\<close>) and the value
  \<^verbatim>\<open>json.load\<close> returns. \<open>JIso d\<close> is the string \<^verbatim>\<open>d.isoformat()\<close>, kept symbolic:
  \<^verbatim>\<open>datetime.fromisoformat\<close> gives \<open>d\<close> back on it and raises on every other string,
  which is a \<open>JStr\<close>.
\<close>

datatype json =
    JNull
  | JBool bool
  | JInt int
  | JFloat real
  | JStr string
  | JIso datetime
  | JArr "json list"
  | JObj "(string \<times> json) list"

subsection \<open>The dataclasses\<close>

record AnalysisRecord =
  session_id :: string
  date :: datetime
  overall_score :: real
  angle :: string
  category_scores :: "(string \<times> real) list option"

record Badge =
  badge_id :: string
  name :: string
  description :: string
  earned_date :: datetime
  icon :: string

record UserProgress =
  user_id :: string
  total_analyses :: int
  current_level :: int
  experience_points :: int
  analysis_records :: "AnalysisRecord list"
  badges :: "Badge list"
  created_date :: datetime
  last_analysis_date :: "datetime option"

text \<open>\<^verbatim>\<open>self.category_scores or {}\<close>: \<^verbatim>\<open>None\<close> and the empty dictionary are both falsy.\<close>

definition AnalysisRecord_to_dict :: "AnalysisRecord \<Rightarrow> json" where
  "AnalysisRecord_to_dict r =
     JObj [(''session_id'', JStr (session_id r)),
           (''date'', JIso (date r)),
           (''overall_score'', JFloat (overall_score r)),
           (''angle'', JStr (angle r)),
           (''category_scores'',
              JObj (map (\<lambda>(k, v). (k, JFloat v))
                (case category_scores r of None \<Rightarrow> [] | Some d \<Rightarrow> if d = [] then [] else d)))]"

definition Badge_to_dict :: "Badge \<Rightarrow> json" where
  "Badge_to_dict b =
     JObj [(''id'', JStr (badge_id b)),
           (''name'', JStr (name b)),
           (''description'', JStr (description b)),
           (''earned_date'', JIso (earned_date b)),
           (''icon'', JStr (icon b))]"

text \<open>
  \<^verbatim>\<open>UserProgress(user_id=user_id)\<close>: the defaults of the dataclass, and
  \<^verbatim>\<open>__post_init__\<close> reading the clock for \<^verbatim>\<open>created_date\<close>.
\<close>

definition new_UserProgress :: "clock \<Rightarrow> nat \<Rightarrow> string \<Rightarrow> UserProgress \<times> nat" where
  "new_UserProgress clk k uid =
     (\<lparr>user_id = uid, total_analyses = 0, current_level = 1, experience_points = 0,
       analysis_records = [], badges = [], created_date = clk k, last_analysis_date = None\<rparr>,
      Suc k)"

subsection \<open>Experience\<close>

definition calculate_experience_points :: "real \<Rightarrow> int" where
  "calculate_experience_points score =
     (let base_points = 10;
          bonus = (if score \<ge> 90 then 20
                   else if score \<ge> 80 then 15
                   else if score \<ge> 70 then 10
                   else if score \<ge> 60 then 5
                   else 0)
      in base_points + bonus)"

subsection \<open>Catalogs\<close>

record level_requirement =
  level_name :: string
  min_points :: int
  min_analyses :: int

definition level_requirements :: "(int \<times> level_requirement) list" where
  "level_requirements =
     [(1, \<lparr>level_name = unicode [0x30D3, 0x30AE, 0x30CA, 0x30FC],
            min_points = 0, min_analyses = 0\<rparr>),
      (2, \<lparr>level_name = unicode [0x30D7, 0x30EC, 0x30A4, 0x30E4, 0x30FC],
            min_points = 100, min_analyses = 5\<rparr>),
      (3, \<lparr>level_name = unicode [0x30B9, 0x30AD, 0x30EB, 0x30C9, 0x30D7, 0x30EC, 0x30A4, 0x30E4, 0x30FC],
            min_points = 300, min_analyses = 15\<rparr>),
      (4, \<lparr>level_name = unicode [0x30A2, 0x30C9, 0x30D0, 0x30F3, 0x30B9, 0x30D7, 0x30EC, 0x30A4, 0x30E4, 0x30FC],
            min_points = 600, min_analyses = 30\<rparr>),
      (5, \<lparr>level_name = unicode [0x30A8, 0x30AD, 0x30B9, 0x30D1, 0x30FC, 0x30C8],
            min_points = 1000, min_analyses = 50\<rparr>),
      (6, \<lparr>level_name = unicode [0x30DE, 0x30B9, 0x30BF, 0x30FC],
            min_points = 1500, min_analyses = 75\<rparr>),
      (7, \<lparr>level_name = unicode [0x30EC, 0x30B8, 0x30A7, 0x30F3, 0x30C9],
            min_points = 2500, min_analyses = 100\<rparr>)]"

record badge_def =
  def_name :: string
  def_description :: string
  def_icon :: string
  auto_award :: bool
  condition :: string

definition badge_definitions :: "(string \<times> badge_def) list" where
  "badge_definitions =
     [(''first_analysis'',
         \<lparr>def_name = unicode [0x521D, 0x56DE, 0x89E3, 0x6790],
          def_description = unicode [0x521D, 0x3081, 0x3066, 0x306E, 0x52D5, 0x753B, 0x89E3, 0x6790, 0x3092, 0x5B8C, 0x4E86],
          def_icon = unicode [0x1F3BE],
          auto_award = True, condition = ''analysis_count >= 1''\<rparr>),
      (''consistent_week'',
         \<lparr>def_name = unicode [0x7D99, 0x7D9A, 0x306E, 0x4E00, 0x6B69],
          def_description = unicode [0x31, 0x9031, 0x9593, 0x4EE5, 0x5185, 0x306B, 0x33, 0x56DE, 0x89E3, 0x6790],
          def_icon = unicode [0x1F4C5],
          auto_award = True, condition = ''weekly_analyses >= 3''\<rparr>),
      (''form_improver'',
         \<lparr>def_name = unicode [0x30D5, 0x30A9, 0x30FC, 0x30E0, 0x6539, 0x5584, 0x8005],
          def_description = unicode [0x7DCF, 0x5408, 0x30B9, 0x30B3, 0x30A2, 0x304C, 0x32, 0x30, 0x30DD, 0x30A4, 0x30F3, 0x30C8, 0x5411, 0x4E0A],
          def_icon = unicode [0x1F4C8],
          auto_award = True, condition = ''score_improvement >= 20''\<rparr>),
      (''stance_master'',
         \<lparr>def_name = unicode [0x30B9, 0x30BF, 0x30F3, 0x30B9, 0x30DE, 0x30B9, 0x30BF, 0x30FC],
          def_description = unicode [0x30B9, 0x30BF, 0x30F3, 0x30B9, 0x30B9, 0x30B3, 0x30A2, 0x39, 0x30, 0x70B9, 0x4EE5, 0x4E0A, 0x3092, 0x9054, 0x6210],
          def_icon = unicode [0x1F3DB, 0xFE0F],
          auto_award = True, condition = ''stance_score >= 90''\<rparr>),
      (''swing_artist'',
         \<lparr>def_name = unicode [0x30B9, 0x30A4, 0x30F3, 0x30B0, 0x30A2, 0x30FC, 0x30C6, 0x30A3, 0x30B9, 0x30C8],
          def_description = unicode [0x30B9, 0x30A4, 0x30F3, 0x30B0, 0x8ECC, 0x9053, 0x30B9, 0x30B3, 0x30A2, 0x38, 0x35, 0x70B9, 0x4EE5, 0x4E0A, 0x3092, 0x9054, 0x6210],
          def_icon = unicode [0x1F3A8],
          auto_award = True, condition = ''swing_score >= 85''\<rparr>),
      (''balance_keeper'',
         \<lparr>def_name = unicode [0x30D0, 0x30E9, 0x30F3, 0x30B9, 0x30AD, 0x30FC, 0x30D1, 0x30FC],
          def_description = unicode [0x30D0, 0x30E9, 0x30F3, 0x30B9, 0x30B9, 0x30B3, 0x30A2, 0x38, 0x35, 0x70B9, 0x4EE5, 0x4E0A, 0x3092, 0x9054, 0x6210],
          def_icon = unicode [0x2696, 0xFE0F],
          auto_award = True, condition = ''balance_score >= 85''\<rparr>),
      (''monthly_warrior'',
         \<lparr>def_name = unicode [0x6708, 0x9593, 0x6226, 0x58EB],
          def_description = unicode [0x31, 0x30F6, 0x6708, 0x9593, 0x7D99, 0x7D9A, 0x7DF4, 0x7FD2],
          def_icon = unicode [0x1F5D3, 0xFE0F],
          auto_award = True, condition = ''monthly_analyses >= 8''\<rparr>),
      (''perfectionist'',
         \<lparr>def_name = unicode [0x5B8C, 0x74A7, 0x4E3B, 0x7FA9, 0x8005],
          def_description = unicode [0x7DCF, 0x5408, 0x30B9, 0x30B3, 0x30A2, 0x39, 0x35, 0x70B9, 0x4EE5, 0x4E0A, 0x3092, 0x9054, 0x6210],
          def_icon = unicode [0x1F48E],
          auto_award = True, condition = ''overall_score >= 95''\<rparr>),
      (''dedicated_student'',
         \<lparr>def_name = unicode [0x71B1, 0x5FC3, 0x306A, 0x751F, 0x5F92],
          def_description = unicode [0x35, 0x30, 0x56DE, 0x306E, 0x89E3, 0x6790, 0x3092, 0x5B8C, 0x4E86],
          def_icon = unicode [0x1F4DA],
          auto_award = True, condition = ''total_analyses >= 50''\<rparr>),
      (''improvement_champion'',
         \<lparr>def_name = unicode [0x6539, 0x5584, 0x30C1, 0x30E3, 0x30F3, 0x30D4, 0x30AA, 0x30F3],
          def_description = unicode [0x5168, 0x30AB, 0x30C6, 0x30B4, 0x30EA, 0x3067, 0x38, 0x30, 0x70B9, 0x4EE5, 0x4E0A, 0x3092, 0x9054, 0x6210],
          def_icon = unicode [0x1F3C6],
          auto_award = True, condition = ''all_categories_above_80''\<rparr>)]"

subsection \<open>The manager and its file\<close>

text \<open>
  The file at \<^verbatim>\<open>data_file\<close>: absent, text that \<^verbatim>\<open>json.load\<close> rejects, or the value
  \<^verbatim>\<open>json.load\<close> returns for it (\<^verbatim>\<open>json.dump\<close> followed by \<^verbatim>\<open>json.load\<close> is the identity
  on these values).
\<close>

datatype file_content = Missing | Malformed | Content json

record ProgressManager =
  progress_data :: "(string \<times> UserProgress) list"
  data_file :: file_content

definition user_dict :: "UserProgress \<Rightarrow> json" where
  "user_dict progress =
     JObj [(''user_id'', JStr (user_id progress)),
           (''total_analyses'', JInt (total_analyses progress)),
           (''current_level'', JInt (current_level progress)),
           (''experience_points'', JInt (experience_points progress)),
           (''created_date'', JIso (created_date progress)),
           (''last_analysis_date'',
              (case last_analysis_date progress of None \<Rightarrow> JNull | Some d \<Rightarrow> JIso d)),
           (''analysis_records'', JArr (map AnalysisRecord_to_dict (analysis_records progress))),
           (''badges'', JArr (map Badge_to_dict (badges progress)))]"

text \<open>
  \<^verbatim>\<open>_save_data\<close> rewrites the whole file from the dictionary in memory. On the values of
  these records nothing in its \<^verbatim>\<open>try\<close> raises (every date is set, every value is
  serializable); errors of the file system are outside the model.
\<close>

definition save_data :: "ProgressManager \<Rightarrow> ProgressManager" where
  "save_data m =
     (let save_data =
            fold (\<lambda>(uid, progress) save_data. AList.update uid (user_dict progress) save_data)
              (progress_data m) []
      in m\<lparr>data_file := Content (JObj save_data)\<rparr>)"

subsection \<open>Levels\<close>

definition check_level_up :: "UserProgress \<Rightarrow> int" where
  "check_level_up progress =
     fold (\<lambda>(level, requirements) current_level.
             if experience_points progress \<ge> min_points requirements
                \<and> total_analyses progress \<ge> min_analyses requirements
             then max current_level level else current_level)
       level_requirements (current_level progress)"

definition award_level_up_badge :: "clock \<Rightarrow> nat \<Rightarrow> UserProgress \<Rightarrow> int \<Rightarrow> UserProgress \<times> nat" where
  "award_level_up_badge clk k progress level =
     (let level_badge_id = ''level_'' @ str_int level;
          badge = \<lparr>badge_id = level_badge_id,
                   name = unicode [0x30EC, 0x30D9, 0x30EB] @ str_int level @ unicode [0x9054, 0x6210],
                   description = unicode [0x30EC, 0x30D9, 0x30EB] @ str_int level
                     @ unicode [0x306B, 0x5230, 0x9054, 0x3057, 0x307E, 0x3057, 0x305F],
                   earned_date = clk k,
                   icon = unicode [0x2B50]\<rparr>
      in (progress\<lparr>badges := badges progress @ [badge]\<rparr>, Suc k))"

subsection \<open>Badges\<close>

text \<open>\<^verbatim>\<open>xs[-n:]\<close>: the last \<open>n\<close> elements, all of them when there are no more than \<open>n\<close>.\<close>

definition slice_last :: "nat \<Rightarrow> 'a list \<Rightarrow> 'a list" where
  "slice_last n xs = (if length xs \<le> n then xs else drop (length xs - n) xs)"

definition check_category_score :: "UserProgress \<Rightarrow> string \<Rightarrow> real \<Rightarrow> bool" where
  "check_category_score progress category threshold =
     (let recent_records =
            (if length (analysis_records progress) \<ge> 3
             then slice_last 3 (analysis_records progress) else analysis_records progress)
      in list_ex (\<lambda>r. case category_scores r of
                         None \<Rightarrow> False
                       | Some d \<Rightarrow> d \<noteq> [] \<and>
                           (case map_of d category of None \<Rightarrow> False | Some v \<Rightarrow> v \<ge> threshold))
           recent_records)"

text \<open>
  The result is paired with the number of clock reads made: the two windowed conditions
  read the clock once, the others do not.
\<close>

definition check_badge_condition :: "clock \<Rightarrow> nat \<Rightarrow> UserProgress \<Rightarrow> string \<Rightarrow> bool \<times> nat" where
  "check_badge_condition clk k progress cond =
     (if cond = ''analysis_count >= 1'' then (total_analyses progress \<ge> 1, k)
      else if cond = ''weekly_analyses >= 3'' then
        (let week_ago = clk k - timedelta_days 7;
             weekly_count = sum_list (map (\<lambda>r. (1::int))
                              (filter (\<lambda>r. date r \<ge> week_ago) (analysis_records progress)))
         in (weekly_count \<ge> 3, Suc k))
      else if cond = ''monthly_analyses >= 8'' then
        (let month_ago = clk k - timedelta_days 30;
             monthly_count = sum_list (map (\<lambda>r. (1::int))
                               (filter (\<lambda>r. date r \<ge> month_ago) (analysis_records progress)))
         in (monthly_count \<ge> 8, Suc k))
      else if cond = ''score_improvement >= 20'' then
        (if length (analysis_records progress) < 5 then (False, k)
         else
           (let recent_scores = map overall_score (slice_last 5 (analysis_records progress));
                early_scores = map overall_score (take 5 (analysis_records progress))
            in case (early_scores, recent_scores) of
                 (e # es, r # rs) \<Rightarrow> (float_sub (fold max rs r) (fold max es e) \<ge> 20, k)
               | _ \<Rightarrow> (False, k)))
      else if cond = ''overall_score >= 95'' then
        (let recent_records =
               (if length (analysis_records progress) \<ge> 3
                then slice_last 3 (analysis_records progress) else analysis_records progress)
         in (list_ex (\<lambda>r. overall_score r \<ge> 95) recent_records, k))
      else if cond = ''total_analyses >= 50'' then (total_analyses progress \<ge> 50, k)
      else if str_contains cond ''stance_score >= 90'' then
        (check_category_score progress ''stance'' 90, k)
      else if str_contains cond ''swing_score >= 85'' then
        (check_category_score progress ''swing_path'' 85, k)
      else if str_contains cond ''balance_score >= 85'' then
        (check_category_score progress ''balance'' 85, k)
      else (False, k))"

definition award_badge_internal :: "clock \<Rightarrow> nat \<Rightarrow> UserProgress \<Rightarrow> string \<Rightarrow> UserProgress \<times> nat" where
  "award_badge_internal clk k progress bid =
     (case map_of badge_definitions bid of
        None \<Rightarrow> (progress, k)
      | Some bdef \<Rightarrow>
          (let badge = \<lparr>badge_id = bid, name = def_name bdef, description = def_description bdef,
                        earned_date = clk k, icon = def_icon bdef\<rparr>
           in (progress\<lparr>badges := badges progress @ [badge]\<rparr>, Suc k)))"

text \<open>
  The loop of \<^verbatim>\<open>_check_auto_badges\<close> over the items of the catalog that are left;
  \<open>earned\<close> is \<^verbatim>\<open>earned_badge_ids\<close>, computed once before the loop.
\<close>

fun auto_badges_loop ::
  "clock \<Rightarrow> string set \<Rightarrow> (string \<times> badge_def) list \<Rightarrow> nat \<Rightarrow> UserProgress \<Rightarrow> UserProgress \<times> nat" where
  "auto_badges_loop clk earned [] k progress = (progress, k)"
| "auto_badges_loop clk earned ((bid, bdef) # rest) k progress =
     (if \<not> auto_award bdef then auto_badges_loop clk earned rest k progress
      else if bid \<in> earned then auto_badges_loop clk earned rest k progress
      else (case check_badge_condition clk k progress (condition bdef) of
              (ok, k') \<Rightarrow>
                if ok then
                  (case award_badge_internal clk k' progress bid of
                     (progress', k'') \<Rightarrow> auto_badges_loop clk earned rest k'' progress')
                else auto_badges_loop clk earned rest k' progress))"

definition check_auto_badges :: "clock \<Rightarrow> nat \<Rightarrow> UserProgress \<Rightarrow> UserProgress \<times> nat" where
  "check_auto_badges clk k progress =
     (let earned_badge_ids = badge_id ` set (badges progress)
      in auto_badges_loop clk earned_badge_ids badge_definitions k progress)"

subsection \<open>Adding a record, awarding a badge\<close>

text \<open>The dictionary \<^verbatim>\<open>add_analysis_record\<close> returns, by its three keys.\<close>

record add_result =
  exp_gained :: int
  new_level :: "int option"
  new_badges :: "Badge list"

definition add_analysis_record ::
  "clock \<Rightarrow> ProgressManager \<Rightarrow> string \<Rightarrow> string \<Rightarrow> real \<Rightarrow> string \<Rightarrow> (string \<times> real) list option
     \<Rightarrow> ProgressManager \<times> add_result" where
  "add_analysis_record clk m uid sid score ang cats =
     (case (case map_of (progress_data m) uid of
              None \<Rightarrow> new_UserProgress clk 0 uid
            | Some p \<Rightarrow> (p, 0)) of
        (progress0, k) \<Rightarrow>
          (let rec = \<lparr>session_id = sid, date = clk k, overall_score = score, angle = ang,
                      category_scores = cats\<rparr>;
               progress1 = progress0\<lparr>analysis_records := analysis_records progress0 @ [rec]\<rparr>;
               progress2 = progress1\<lparr>total_analyses := total_analyses progress1 + 1,
                                     last_analysis_date := Some (clk (k + 1))\<rparr>;
               exp_gained = calculate_experience_points score;
               progress3 = progress2\<lparr>experience_points := experience_points progress2 + exp_gained\<rparr>;
               new_level = check_level_up progress3
           in case (if new_level > current_level progress3
                    then award_level_up_badge clk (k + 2) (progress3\<lparr>current_level := new_level\<rparr>) new_level
                    else (progress3, k + 2)) of
                (progress4, k4) \<Rightarrow>
                  (case check_auto_badges clk k4 progress4 of
                     (progress5, k5) \<Rightarrow>
                       (save_data (m\<lparr>progress_data := AList.update uid progress5 (progress_data m)\<rparr>),
                        \<lparr>exp_gained = exp_gained,
                         new_level = (if new_level > current_level progress5 then Some new_level else None),
                         new_badges = []\<rparr>))))"

definition award_badge :: "clock \<Rightarrow> ProgressManager \<Rightarrow> string \<Rightarrow> string \<Rightarrow> ProgressManager \<times> bool" where
  "award_badge clk m uid bid =
     (case map_of (progress_data m) uid of
        None \<Rightarrow> (m, False)
      | Some progress \<Rightarrow>
          if map_of badge_definitions bid = None then (m, False)
          else
            (let earned_badge_ids = badge_id ` set (badges progress)
             in if bid \<in> earned_badge_ids then (m, False)
                else (case award_badge_internal clk 0 progress bid of
                        (progress', k) \<Rightarrow>
                          (save_data (m\<lparr>progress_data := AList.update uid progress' (progress_data m)\<rparr>),
                           True))))"

subsection \<open>Reading progress\<close>

definition get_trend_description :: "string \<Rightarrow> real \<Rightarrow> string" where
  "get_trend_description trend change_rate =
     (if trend = ''improving'' then
        (if change_rate > 10
         then unicode [0x7D20, 0x6674, 0x3089, 0x3057, 0x3044, 0x4E0A, 0x9054, 0x3092, 0x898B, 0x305B,
                       0x3066, 0x3044, 0x307E, 0x3059, 0xFF01]
         else unicode [0x7740, 0x5B9F, 0x306B, 0x6539, 0x5584, 0x304C, 0x898B, 0x3089, 0x308C, 0x307E,
                       0x3059])
      else if trend = ''declining'' then
        unicode [0x5C11, 0x3057, 0x8ABF, 0x5B50, 0x304C, 0x843D, 0x3061, 0x3066, 0x3044, 0x308B, 0x3088,
                 0x3046, 0x3067, 0x3059, 0x3002, 0x57FA, 0x790E, 0x7DF4, 0x7FD2, 0x3092, 0x91CD, 0x8996,
                 0x3057, 0x307E, 0x3057, 0x3087, 0x3046]
      else
        unicode [0x5B89, 0x5B9A, 0x3057, 0x305F, 0x30D1, 0x30D5, 0x30A9, 0x30FC, 0x30DE, 0x30F3, 0x30B9,
                 0x3092, 0x7DAD, 0x6301, 0x3057, 0x3066, 0x3044, 0x307E, 0x3059])"

text \<open>
  The change rate of the guarded branch is the integer \<^verbatim>\<open>0\<close> in the source; it is the
  float zero here, which Python compares equal to it.
\<close>

definition analyze_improvement_trends :: "clock \<Rightarrow> nat \<Rightarrow> UserProgress \<Rightarrow> json \<times> nat" where
  "analyze_improvement_trends clk k progress =
     (if length (analysis_records progress) < 3 then (JObj [], k)
      else
        (let month_ago = clk k - timedelta_days 30;
             recent_records = filter (\<lambda>r. date r \<ge> month_ago) (analysis_records progress)
         in if length recent_records < 2 then (JObj [], Suc k)
            else
              (let scores = map overall_score recent_records
               in case (if length scores \<ge> 2 then
                          (if last scores > scores ! 0 then ''improving''
                           else if \<bar>float_sub (last scores) (scores ! 0)\<bar> < 5 then ''stable''
                           else ''declining'',
                           if scores ! 0 > 0
                           then float_mul
                                  (float_div (float_sub (last scores) (scores ! 0)) (scores ! 0))
                                  100
                           else 0)
                        else (''stable'', 0)) of
                    (trend, change_rate) \<Rightarrow>
                      (JObj [(''overall'',
                               JObj [(''trend'', JStr trend),
                                     (''change_rate'', JFloat (py_round1 change_rate)),
                                     (''description'',
                                        JStr (get_trend_description trend change_rate))])],
                       Suc k))))"

definition score_history_entry :: "AnalysisRecord \<Rightarrow> json" where
  "score_history_entry r =
     JObj [(''date'', JIso (date r)),
           (''overall_score'', JFloat (overall_score r)),
           (''angle'', JStr (angle r)),
           (''session_id'', JStr (session_id r))]"

definition get_score_history :: "UserProgress \<Rightarrow> json list" where
  "get_score_history progress = map score_history_entry (slice_last 10 (analysis_records progress))"

definition get_next_level_requirements :: "int \<Rightarrow> json" where
  "get_next_level_requirements level =
     (let next_level = level + 1
      in case map_of level_requirements next_level of
           Some req \<Rightarrow>
             JObj [(''level'', JInt next_level),
                   (''name'', JStr (level_name req)),
                   (''points_needed'', JInt (min_points req)),
                   (''analyses_needed'', JInt (min_analyses req)),
                   (''description'',
                      JStr (unicode [0x30EC, 0x30D9, 0x30EB] @ str_int next_level @ unicode [0x300C]
                            @ level_name req
                            @ unicode [0x300D, 0x307E, 0x3067, 0x3042, 0x3068, 0x5C11, 0x3057, 0xFF01]))]
         | None \<Rightarrow>
             JObj [(''level'', JInt level),
                   (''name'', JStr (unicode [0x6700, 0x9AD8, 0x30EC, 0x30D9, 0x30EB])),
                   (''points_needed'', JInt 0),
                   (''analyses_needed'', JInt 0),
                   (''description'',
                      JStr (unicode [0x304A, 0x3081, 0x3067, 0x3068, 0x3046, 0x3054, 0x3056, 0x3044,
                                     0x307E, 0x3059, 0xFF01, 0x6700, 0x9AD8, 0x30EC, 0x30D9, 0x30EB,
                                     0x306B, 0x5230, 0x9054, 0x3057, 0x307E, 0x3057, 0x305F, 0xFF01]))])"

definition get_user_progress :: "clock \<Rightarrow> ProgressManager \<Rightarrow> string \<Rightarrow> json option" where
  "get_user_progress clk m uid =
     (case map_of (progress_data m) uid of
        None \<Rightarrow> None
      | Some progress \<Rightarrow>
          (case analyze_improvement_trends clk 0 progress of
             (improvement_trends, k) \<Rightarrow>
               (let next_level_req = get_next_level_requirements (current_level progress)
                in Some (JObj
                     [(''user_id'', JStr uid),
                      (''total_analyses'', JInt (total_analyses progress)),
                      (''current_level'', JInt (current_level progress)),
                      (''experience_points'', JInt (experience_points progress)),
                      (''badges'', JArr (map Badge_to_dict (badges progress))),
                      (''score_history'', JArr (get_score_history progress)),
                      (''improvement_trends'', improvement_trends),
                      (''next_level_requirements'', next_level_req),
                      (''last_analysis_date'',
                         (case last_analysis_date progress of None \<Rightarrow> JNull | Some d \<Rightarrow> JIso d))]))))"

subsection \<open>Loading the file\<close>

text \<open>
  \<^verbatim>\<open>_load_data\<close> checks no type: \<^verbatim>\<open>AnalysisRecord(**record_data)\<close>, \<^verbatim>\<open>Badge(**badge_data)\<close>
  and \<^verbatim>\<open>UserProgress(**user_data)\<close> store whatever value the file holds. Decoding has
  three outcomes: the value; \<open>Raises\<close>, when Python raises inside the \<^verbatim>\<open>try\<close> (a missing or
  unexpected key, a string that is no ISO date, a value that cannot be indexed or iterated),
  so that \<^verbatim>\<open>_load_data\<close> returns the empty dictionary; and \<open>Untyped\<close>, when Python goes on
  with a value that the annotations of the dataclass exclude, which the records of this
  theory cannot hold. An exception anywhere wins over \<open>Untyped\<close>, since nothing is returned
  but the empty dictionary then. The object \<^verbatim>\<open>json.load\<close> returns has each key once.
\<close>

datatype 'a loaded = Loaded 'a | Raises | Untyped

fun both :: "'a loaded \<Rightarrow> 'b loaded \<Rightarrow> ('a \<times> 'b) loaded" where
  "both Raises y = Raises"
| "both x Raises = Raises"
| "both Untyped y = Untyped"
| "both x Untyped = Untyped"
| "both (Loaded a) (Loaded b) = Loaded (a, b)"

fun load_all :: "('a \<Rightarrow> 'b loaded) \<Rightarrow> 'a list \<Rightarrow> 'b list loaded" where
  "load_all f [] = Loaded []"
| "load_all f (x # xs) =
     (case both (f x) (load_all f xs) of
        Loaded (y, ys) \<Rightarrow> Loaded (y # ys) | Raises \<Rightarrow> Raises | Untyped \<Rightarrow> Untyped)"

fun load_str :: "json \<Rightarrow> string loaded" where
  "load_str (JStr s) = Loaded s"
| "load_str v = Untyped"

fun load_int :: "json \<Rightarrow> int loaded" where
  "load_int (JInt i) = Loaded i"
| "load_int v = Untyped"

fun load_float :: "json \<Rightarrow> real loaded" where
  "load_float (JFloat x) = Loaded x"
| "load_float (JInt i) = Loaded (of_int i)"
| "load_float v = Untyped"

text \<open>\<^verbatim>\<open>datetime.fromisoformat\<close>.\<close>

fun fromisoformat :: "json \<Rightarrow> datetime loaded" where
  "fromisoformat (JIso d) = Loaded d"
| "fromisoformat v = Raises"

text \<open>The truth value Python gives a JSON value.\<close>

fun truthy :: "json \<Rightarrow> bool" where
  "truthy JNull = False"
| "truthy (JBool b) = b"
| "truthy (JInt i) = (i \<noteq> 0)"
| "truthy (JFloat x) = (x \<noteq> 0)"
| "truthy (JStr s) = (s \<noteq> [])"
| "truthy (JIso d) = True"
| "truthy (JArr xs) = (xs \<noteq> [])"
| "truthy (JObj kvs) = (kvs \<noteq> [])"

text \<open>The field \<^verbatim>\<open>category_scores\<close>: absent (the default \<^verbatim>\<open>None\<close>), null, or a dictionary.\<close>

fun load_category_scores :: "json option \<Rightarrow> (string \<times> real) list option loaded" where
  "load_category_scores None = Loaded None"
| "load_category_scores (Some JNull) = Loaded None"
| "load_category_scores (Some (JObj kvs)) =
     (case load_all (\<lambda>(k, v). case load_float v of
                                  Loaded x \<Rightarrow> Loaded (k, x) | Raises \<Rightarrow> Raises | Untyped \<Rightarrow> Untyped) kvs of
        Loaded d \<Rightarrow> Loaded (Some d) | Raises \<Rightarrow> Raises | Untyped \<Rightarrow> Untyped)"
| "load_category_scores (Some v) = Untyped"

definition load_record :: "json \<Rightarrow> AnalysisRecord loaded" where
  "load_record record_data =
     (case record_data of
        JObj kvs \<Rightarrow>
          (case map_of kvs ''date'' of
             None \<Rightarrow> Raises
           | Some dv \<Rightarrow>
               if \<not> set (map fst kvs) \<subseteq>
                     {''session_id'', ''date'', ''overall_score'', ''angle'', ''category_scores''}
               then Raises
               else
                 (case (map_of kvs ''session_id'', map_of kvs ''overall_score'', map_of kvs ''angle'') of
                    (Some sv, Some ov, Some av) \<Rightarrow>
                      (case both (fromisoformat dv)
                              (both (load_str sv)
                                 (both (load_float ov)
                                    (both (load_str av)
                                       (load_category_scores (map_of kvs ''category_scores''))))) of
                         Loaded (d, s, x, a, c) \<Rightarrow>
                           Loaded \<lparr>session_id = s, date = d, overall_score = x, angle = a,
                                   category_scores = c\<rparr>
                       | Raises \<Rightarrow> Raises
                       | Untyped \<Rightarrow> Untyped)
                  | _ \<Rightarrow> Raises))
      | _ \<Rightarrow> Raises)"

definition load_badge :: "json \<Rightarrow> Badge loaded" where
  "load_badge badge_data =
     (case badge_data of
        JObj kvs \<Rightarrow>
          (case map_of kvs ''earned_date'' of
             None \<Rightarrow> Raises
           | Some ev \<Rightarrow>
               if \<not> set (map fst kvs) \<subseteq> {''id'', ''name'', ''description'', ''earned_date'', ''icon''}
               then Raises
               else
                 (case (map_of kvs ''id'', map_of kvs ''name'', map_of kvs ''description'') of
                    (Some iv, Some nv, Some dv) \<Rightarrow>
                      (case both (fromisoformat ev)
                              (both (load_str iv)
                                 (both (load_str nv)
                                    (both (load_str dv)
                                       (case map_of kvs ''icon'' of
                                          None \<Rightarrow> Loaded (unicode [0x1F3C6])
                                        | Some cv \<Rightarrow> load_str cv)))) of
                         Loaded (e, i, n, d, c) \<Rightarrow>
                           Loaded \<lparr>badge_id = i, name = n, description = d, earned_date = e, icon = c\<rparr>
                       | Raises \<Rightarrow> Raises
                       | Untyped \<Rightarrow> Untyped)
                  | _ \<Rightarrow> Raises))
      | _ \<Rightarrow> Raises)"

text \<open>
  Iterating the value under \<^verbatim>\<open>analysis_records\<close> or \<^verbatim>\<open>badges\<close>: a list gives its
  elements, an empty dictionary or string gives nothing, and anything else raises, in the
  \<^verbatim>\<open>for\<close> itself or at the first element (a key or a character, which cannot be indexed by
  a string).
\<close>

fun load_list :: "(json \<Rightarrow> 'a loaded) \<Rightarrow> json option \<Rightarrow> 'a list loaded" where
  "load_list f None = Loaded []"
| "load_list f (Some (JArr xs)) = load_all f xs"
| "load_list f (Some (JObj kvs)) = (if kvs = [] then Loaded [] else Raises)"
| "load_list f (Some (JStr s)) = (if s = [] then Loaded [] else Raises)"
| "load_list f (Some v) = Raises"

fun load_last_analysis_date :: "json option \<Rightarrow> datetime option loaded" where
  "load_last_analysis_date None = Loaded None"
| "load_last_analysis_date (Some JNull) = Loaded None"
| "load_last_analysis_date (Some (JIso d)) = Loaded (Some d)"
| "load_last_analysis_date (Some v) = (if truthy v then Raises else Untyped)"

definition load_user :: "json \<Rightarrow> UserProgress loaded" where
  "load_user user_data =
     (case user_data of
        JObj kvs \<Rightarrow>
          (case map_of kvs ''created_date'' of
             None \<Rightarrow> Raises
           | Some cv \<Rightarrow>
               if \<not> set (map fst kvs) \<subseteq>
                     {''user_id'', ''total_analyses'', ''current_level'', ''experience_points'',
                      ''analysis_records'', ''badges'', ''created_date'', ''last_analysis_date''}
               then Raises
               else
                 (case map_of kvs ''user_id'' of
                    None \<Rightarrow> Raises
                  | Some uv \<Rightarrow>
                      (case both (fromisoformat cv)
                              (both (load_last_analysis_date (map_of kvs ''last_analysis_date''))
                                 (both (load_list load_record (map_of kvs ''analysis_records''))
                                    (both (load_list load_badge (map_of kvs ''badges''))
                                       (both (load_str uv)
                                          (both (case map_of kvs ''total_analyses'' of
                                                   None \<Rightarrow> Loaded 0 | Some v \<Rightarrow> load_int v)
                                             (both (case map_of kvs ''current_level'' of
                                                      None \<Rightarrow> Loaded 1 | Some v \<Rightarrow> load_int v)
                                                (case map_of kvs ''experience_points'' of
                                                   None \<Rightarrow> Loaded 0 | Some v \<Rightarrow> load_int v))))))) of
                         Loaded (c, l, rs, bs, u, t, lv, e) \<Rightarrow>
                           Loaded \<lparr>user_id = u, total_analyses = t, current_level = lv,
                                   experience_points = e, analysis_records = rs, badges = bs,
                                   created_date = c, last_analysis_date = l\<rparr>
                       | Raises \<Rightarrow> Raises
                       | Untyped \<Rightarrow> Untyped)))
      | _ \<Rightarrow> Raises)"

fun load_items ::
  "(string \<times> json) list \<Rightarrow> (string \<times> UserProgress) list \<Rightarrow> (string \<times> UserProgress) list loaded" where
  "load_items [] progress_dict = Loaded progress_dict"
| "load_items ((uid, user_data) # rest) progress_dict =
     (case load_user user_data of
        Loaded progress \<Rightarrow> load_items rest (AList.update uid progress progress_dict)
      | Raises \<Rightarrow> Raises
      | Untyped \<Rightarrow> (case load_items rest progress_dict of Raises \<Rightarrow> Raises | r \<Rightarrow> Untyped))"

definition load_data :: "file_content \<Rightarrow> (string \<times> UserProgress) list loaded" where
  "load_data f =
     (case f of
        Missing \<Rightarrow> Loaded []
      | Malformed \<Rightarrow> Loaded []
      | Content data \<Rightarrow>
          (case (case data of JObj items \<Rightarrow> load_items items [] | _ \<Rightarrow> Raises) of
             Raises \<Rightarrow> Loaded []
           | r \<Rightarrow> r))"

subsection \<open>Notions the properties are stated with\<close>

text \<open>The aggregate a call for \<open>uid\<close> works on: the stored one, or the fresh one it creates.\<close>

definition progress_of :: "clock \<Rightarrow> ProgressManager \<Rightarrow> string \<Rightarrow> UserProgress" where
  "progress_of clk m uid =
     (case map_of (progress_data m) uid of
        None \<Rightarrow> fst (new_UserProgress clk 0 uid)
      | Some p \<Rightarrow> p)"

text \<open>A sequence of \<^verbatim>\<open>add_analysis_record\<close> calls, each with the clock of its call.\<close>

datatype add_call = AddCall clock string string real string "(string \<times> real) list option"

fun apply_call :: "ProgressManager \<Rightarrow> add_call \<Rightarrow> ProgressManager" where
  "apply_call m (AddCall clk uid sid score ang cats) =
     fst (add_analysis_record clk m uid sid score ang cats)"

definition run_calls :: "ProgressManager \<Rightarrow> add_call list \<Rightarrow> ProgressManager" where
  "run_calls m calls = foldl apply_call m calls"

text \<open>The entries with badge id \<open>i\<close> in a collection, and in the collection of a user.\<close>

definition entries_of :: "string \<Rightarrow> Badge list \<Rightarrow> Badge list" where
  "entries_of i bs = filter (\<lambda>b. badge_id b = i) bs"

definition held :: "ProgressManager \<Rightarrow> string \<Rightarrow> string \<Rightarrow> Badge list" where
  "held m uid i =
     (case map_of (progress_data m) uid of None \<Rightarrow> [] | Some p \<Rightarrow> entries_of i (badges p))"

text \<open>
  The change rate in the words of the specification: \<open>(last - first) / first * 100\<close> in the
  arithmetic of floats, and zero when \<open>first\<close> is zero.
\<close>

definition claimed_change_rate :: "real \<Rightarrow> real \<Rightarrow> real" where
  "claimed_change_rate first_score last_score =
     (if first_score = 0 then 0
      else float_mul (float_div (float_sub last_score first_score) first_score) 100)"

text \<open>
  What writing and reading back does to a record: no \<^verbatim>\<open>category_scores\<close> becomes the
  empty dictionary.
\<close>

definition stored_record :: "AnalysisRecord \<Rightarrow> AnalysisRecord" where
  "stored_record r =
     r\<lparr>category_scores := Some (case category_scores r of None \<Rightarrow> [] | Some d \<Rightarrow> d)\<rparr>"

definition stored_progress :: "UserProgress \<Rightarrow> UserProgress" where
  "stored_progress p = p\<lparr>analysis_records := map stored_record (analysis_records p)\<rparr>"

section \<open>Auxiliary facts\<close>

lemma fold_level_ge:
  "c \<le> fold (\<lambda>(level, requirements) current_level.
             if P requirements then max current_level level else current_level) xs (c::int)"
proof (induction xs arbitrary: c)
  case Nil
  then show ?case by simp
next
  case (Cons x xs)
  obtain l r where x: "x = (l, r)" by (cases x)
  have "c \<le> (if P r then max c l else c)" by simp
  also have "\<dots> \<le> fold (\<lambda>(level, requirements) current_level.
             if P requirements then max current_level level else current_level) xs (if P r then max c l else c)"
    by (rule Cons.IH)
  finally show ?case by (simp add: x)
qed

lemma check_level_up_ge: "current_level p \<le> check_level_up p"
  unfolding check_level_up_def by (rule fold_level_ge)

lemma award_badge_internal_le:
  assumes "award_badge_internal clk k p bid = (p', k')"
  shows "\<exists>added. p' = p\<lparr>badges := badges p @ added\<rparr> \<and> set (map badge_id added) \<subseteq> {bid} \<and> length added \<le> 1"
proof (cases "map_of badge_definitions bid")
  case None
  then have "p' = p\<lparr>badges := badges p @ []\<rparr>"
    using assms by (auto simp: award_badge_internal_def)
  then show ?thesis by (intro exI[of _ "[]"]) simp
next
  case (Some bdef)
  then show ?thesis
    using assms by (auto simp: award_badge_internal_def Let_def)
qed

lemma loop_shape:
  "auto_badges_loop clk earned rest k p = (p', k') \<Longrightarrow> distinct (map fst rest) \<Longrightarrow>
     \<exists>added. p' = p\<lparr>badges := badges p @ added\<rparr> \<and> distinct (map badge_id added)
        \<and> set (map badge_id added) \<subseteq> fst ` set rest - earned"
proof (induction clk earned rest k p arbitrary: p' k' rule: auto_badges_loop.induct)
  case (1 clk earned k progress)
  then show ?case by (auto intro: exI[of _ "[]"])
next
  case (2 clk earned bid bdef rest k progress)
  have d: "distinct (map fst rest)" and nin: "bid \<notin> fst ` set rest"
    using "2.prems"(2) by auto
  show ?case
  proof (cases "\<not> auto_award bdef \<or> bid \<in> earned")
    case True
    then have "auto_badges_loop clk earned rest k progress = (p', k')"
      using "2.prems"(1) by (cases "auto_award bdef") simp_all
    then obtain added where "p' = progress\<lparr>badges := badges progress @ added\<rparr>"
      "distinct (map badge_id added)" "set (map badge_id added) \<subseteq> fst ` set rest - earned"
      using True "2.IH"(1,2) d by blast
    then show ?thesis by auto
  next
    case False
    then have aa: "auto_award bdef" and ne: "bid \<notin> earned" by auto
    obtain ok k1 where c: "check_badge_condition clk k progress (condition bdef) = (ok, k1)"
      by (cases "check_badge_condition clk k progress (condition bdef)")
    show ?thesis
    proof (cases ok)
      case True
      obtain p1 k2 where a: "award_badge_internal clk k1 progress bid = (p1, k2)"
        by (cases "award_badge_internal clk k1 progress bid")
      have l: "auto_badges_loop clk earned rest k2 p1 = (p', k')"
        using "2.prems"(1) aa ne c True a by simp
      obtain added1 where a1: "p1 = progress\<lparr>badges := badges progress @ added1\<rparr>"
        "set (map badge_id added1) \<subseteq> {bid}" "length added1 \<le> 1"
        using award_badge_internal_le[OF a] by blast
      obtain added2 where a2: "p' = p1\<lparr>badges := badges p1 @ added2\<rparr>"
        "distinct (map badge_id added2)" "set (map badge_id added2) \<subseteq> fst ` set rest - earned"
        using "2.IH"(3)[OF _ ne c[symmetric] True a[symmetric] l d] aa by auto
      have d1: "distinct (map badge_id added1)"
        using a1(3) by (cases added1) auto
      have "p' = progress\<lparr>badges := badges progress @ (added1 @ added2)\<rparr>"
        using a1(1) a2(1) by simp
      moreover have "distinct (map badge_id (added1 @ added2))"
        using d1 a2(2,3) a1(2) nin by auto
      moreover have "set (map badge_id (added1 @ added2)) \<subseteq> fst ` set ((bid, bdef) # rest) - earned"
        using a1(2) a2(3) ne by auto
      ultimately show ?thesis by blast
    next
      case False
      have l: "auto_badges_loop clk earned rest k1 progress = (p', k')"
        using "2.prems"(1) aa ne c False by simp
      obtain added where "p' = progress\<lparr>badges := badges progress @ added\<rparr>"
        "distinct (map badge_id added)" "set (map badge_id added) \<subseteq> fst ` set rest - earned"
        using "2.IH"(4)[OF _ ne c[symmetric] False l d] aa by auto
      then show ?thesis by auto
    qed
  qed
qed


lemma distinct_badge_definitions: "distinct (map fst badge_definitions)"
  by (simp add: badge_definitions_def)

lemma check_auto_badges_shape:
  assumes "check_auto_badges clk k p = (p', k')"
  shows "\<exists>added. p' = p\<lparr>badges := badges p @ added\<rparr> \<and> distinct (map badge_id added)
        \<and> set (map badge_id added) \<subseteq> fst ` set badge_definitions - badge_id ` set (badges p)"
  using assms loop_shape[OF _ distinct_badge_definitions]
  unfolding check_auto_badges_def Let_def by blast

lemma add_analysis_record_char:
  "\<exists>p4 p5 k k4 k5 l5 lvl.
      add_analysis_record clk m uid sid score ang cats =
        (save_data (m\<lparr>progress_data := AList.update uid p5 (progress_data m)\<rparr>),
         \<lparr>exp_gained = calculate_experience_points score, new_level = None, new_badges = []\<rparr>)
    \<and> p4 = (progress_of clk m uid)
         \<lparr>analysis_records := analysis_records (progress_of clk m uid)
             @ [\<lparr>session_id = sid, date = clk k, overall_score = score, angle = ang, category_scores = cats\<rparr>],
          total_analyses := total_analyses (progress_of clk m uid) + 1,
          last_analysis_date := Some (clk (k + 1)),
          experience_points := experience_points (progress_of clk m uid) + calculate_experience_points score,
          current_level := l5,
          badges := badges (progress_of clk m uid) @ lvl\<rparr>
    \<and> check_auto_badges clk k4 p4 = (p5, k5)
    \<and> current_level (progress_of clk m uid) \<le> l5
    \<and> (lvl = [] \<and> l5 = current_level (progress_of clk m uid)
        \<or> map badge_id lvl = [''level_'' @ str_int l5]
          \<and> current_level (progress_of clk m uid) < l5)"
proof -
  define p0 where "p0 = progress_of clk m uid"
  define k where "k = (case map_of (progress_data m) uid of None \<Rightarrow> Suc 0 | Some p \<Rightarrow> 0)"
  have pk: "(case map_of (progress_data m) uid of None \<Rightarrow> new_UserProgress clk 0 uid | Some p \<Rightarrow> (p, 0)) = (p0, k)"
    by (simp add: p0_def k_def progress_of_def new_UserProgress_def split: option.splits)
  define rec where "rec = \<lparr>session_id = sid, date = clk k, overall_score = score, angle = ang,
                      category_scores = cats\<rparr>"
  define p1 where "p1 = p0\<lparr>analysis_records := analysis_records p0 @ [rec]\<rparr>"
  define p2 where "p2 = p1\<lparr>total_analyses := total_analyses p1 + 1,
                                     last_analysis_date := Some (clk (k + 1))\<rparr>"
  define p3 where "p3 = p2\<lparr>experience_points := experience_points p2 + calculate_experience_points score\<rparr>"
  define nl where "nl = check_level_up p3"
  have p3eq: "p3 = p0\<lparr>analysis_records := analysis_records p0 @ [rec],
          total_analyses := total_analyses p0 + 1,
          last_analysis_date := Some (clk (k + 1)),
          experience_points := experience_points p0 + calculate_experience_points score\<rparr>"
    by (simp add: p3_def p2_def p1_def)
  have nl_ge: "current_level p0 \<le> nl"
    using check_level_up_ge[of p3] by (simp add: nl_def p3eq)
  obtain p4 k4 where p4: "(if nl > current_level p3
                    then award_level_up_badge clk (k + 2) (p3\<lparr>current_level := nl\<rparr>) nl
                    else (p3, k + 2)) = (p4, k4)"
    by (cases "(if nl > current_level p3
                    then award_level_up_badge clk (k + 2) (p3\<lparr>current_level := nl\<rparr>) nl
                    else (p3, k + 2))")
  obtain p5 k5 where p5: "check_auto_badges clk k4 p4 = (p5, k5)"
    by (cases "check_auto_badges clk k4 p4")
  obtain lvl l4 where lv: "p4 = p3\<lparr>current_level := l4, badges := badges p0 @ lvl\<rparr>"
     "nl \<le> l4" "current_level p0 \<le> l4"
     "lvl = [] \<and> l4 = current_level p0
        \<or> map badge_id lvl = [''level_'' @ str_int l4] \<and> current_level p0 < l4"
  proof (cases "nl > current_level p3")
    case True
    define b where "b = \<lparr>badge_id = ''level_'' @ str_int nl,
                   name = unicode [0x30EC, 0x30D9, 0x30EB] @ str_int nl @ unicode [0x9054, 0x6210],
                   description = unicode [0x30EC, 0x30D9, 0x30EB] @ str_int nl
                     @ unicode [0x306B, 0x5230, 0x9054, 0x3057, 0x307E, 0x3057, 0x305F],
                   earned_date = clk (k + 2),
                   icon = unicode [0x2B50]\<rparr>"
    have "p4 = p3\<lparr>current_level := nl, badges := badges p0 @ [b]\<rparr>"
      using p4 True by (simp add: award_level_up_badge_def Let_def p3eq b_def)
    then show ?thesis using True that[of "[b]" nl] by (simp add: p3eq b_def)
  next
    case False
    then have "p4 = p3" using p4 by simp
    then have "p4 = p3\<lparr>current_level := current_level p0, badges := badges p0 @ []\<rparr>"
      by (simp add: p3eq)
    then show ?thesis using False nl_ge that[of "[]" "current_level p0"] by (simp add: p3eq)
  qed
  have res: "add_analysis_record clk m uid sid score ang cats =
        (save_data (m\<lparr>progress_data := AList.update uid p5 (progress_data m)\<rparr>),
         \<lparr>exp_gained = calculate_experience_points score,
          new_level = (if nl > current_level p5 then Some nl else None), new_badges = []\<rparr>)"
    using p4 p5 unfolding add_analysis_record_def pk nl_def p3_def p2_def p1_def rec_def
    by (simp only: Let_def prod.case)
  obtain auto_added where au: "p5 = p4\<lparr>badges := badges p4 @ auto_added\<rparr>"
    using check_auto_badges_shape[OF p5] by blast
  have c5: "current_level p5 = l4" using au lv(1) by simp
  have p4eq: "p4 = p0
         \<lparr>analysis_records := analysis_records p0
             @ [\<lparr>session_id = sid, date = clk k, overall_score = score, angle = ang, category_scores = cats\<rparr>],
          total_analyses := total_analyses p0 + 1,
          last_analysis_date := Some (clk (k + 1)),
          experience_points := experience_points p0 + calculate_experience_points score,
          current_level := l4,
          badges := badges p0 @ lvl\<rparr>"
    using lv(1) by (simp add: p3eq rec_def)
  have nonew: "(if nl > current_level p5 then Some nl else None) = None"
    using lv(2) c5 by simp
  show ?thesis
    unfolding p0_def[symmetric]
    apply (rule exI[of _ p4], rule exI[of _ p5], rule exI[of _ k], rule exI[of _ k4], rule exI[of _ k5],
           rule exI[of _ l4], rule exI[of _ lvl])
    using res p4eq lv(3,4) p5 nonew by simp
qed

lemma progress_data_save_data: "progress_data (save_data m) = progress_data m"
  by (simp add: save_data_def Let_def)

text \<open>What one call does to the aggregate of its user, and to the others.\<close>

lemma add_analysis_record_user:
  "\<exists>p5 lvl auto_added k l5.
      map_of (progress_data (fst (add_analysis_record clk m uid sid score ang cats))) uid = Some p5
    \<and> p5 = (progress_of clk m uid)
         \<lparr>analysis_records := analysis_records (progress_of clk m uid)
             @ [\<lparr>session_id = sid, date = clk k, overall_score = score, angle = ang, category_scores = cats\<rparr>],
          total_analyses := total_analyses (progress_of clk m uid) + 1,
          last_analysis_date := Some (clk (k + 1)),
          experience_points := experience_points (progress_of clk m uid) + calculate_experience_points score,
          current_level := l5,
          badges := badges (progress_of clk m uid) @ lvl @ auto_added\<rparr>
    \<and> current_level (progress_of clk m uid) \<le> l5
    \<and> (lvl = [] \<and> l5 = current_level (progress_of clk m uid)
        \<or> map badge_id lvl = [''level_'' @ str_int l5]
          \<and> current_level (progress_of clk m uid) < l5)
    \<and> distinct (map badge_id auto_added)
    \<and> set (map badge_id auto_added) \<subseteq> fst ` set badge_definitions
          - badge_id ` set (badges (progress_of clk m uid) @ lvl)"
proof -
  obtain p4 p5 k k4 k5 l5 lvl where c:
    "add_analysis_record clk m uid sid score ang cats =
        (save_data (m\<lparr>progress_data := AList.update uid p5 (progress_data m)\<rparr>),
         \<lparr>exp_gained = calculate_experience_points score, new_level = None, new_badges = []\<rparr>)"
    "p4 = (progress_of clk m uid)
         \<lparr>analysis_records := analysis_records (progress_of clk m uid)
             @ [\<lparr>session_id = sid, date = clk k, overall_score = score, angle = ang, category_scores = cats\<rparr>],
          total_analyses := total_analyses (progress_of clk m uid) + 1,
          last_analysis_date := Some (clk (k + 1)),
          experience_points := experience_points (progress_of clk m uid) + calculate_experience_points score,
          current_level := l5,
          badges := badges (progress_of clk m uid) @ lvl\<rparr>"
    "check_auto_badges clk k4 p4 = (p5, k5)"
    "current_level (progress_of clk m uid) \<le> l5"
    "lvl = [] \<and> l5 = current_level (progress_of clk m uid)
        \<or> map badge_id lvl = [''level_'' @ str_int l5]
          \<and> current_level (progress_of clk m uid) < l5"
    using add_analysis_record_char[of clk m uid sid score ang cats]
    by (elim exE conjE) (rule that; assumption)
  obtain added where au: "p5 = p4\<lparr>badges := badges p4 @ added\<rparr>" "distinct (map badge_id added)"
     "set (map badge_id added) \<subseteq> fst ` set badge_definitions - badge_id ` set (badges p4)"
    using check_auto_badges_shape[OF c(3)] by blast
  have b4: "badges p4 = badges (progress_of clk m uid) @ lvl" using c(2) by simp
  have m5: "map_of (progress_data (fst (add_analysis_record clk m uid sid score ang cats))) uid = Some p5"
    by (simp add: c(1) progress_data_save_data update_conv')
  have p5eq: "p5 = (progress_of clk m uid)
         \<lparr>analysis_records := analysis_records (progress_of clk m uid)
             @ [\<lparr>session_id = sid, date = clk k, overall_score = score, angle = ang, category_scores = cats\<rparr>],
          total_analyses := total_analyses (progress_of clk m uid) + 1,
          last_analysis_date := Some (clk (k + 1)),
          experience_points := experience_points (progress_of clk m uid) + calculate_experience_points score,
          current_level := l5,
          badges := badges (progress_of clk m uid) @ lvl @ added\<rparr>"
    using au(1) c(2) by simp
  show ?thesis
    apply (rule exI[of _ p5], rule exI[of _ lvl], rule exI[of _ added], rule exI[of _ k], rule exI[of _ l5])
    using m5 p5eq c(4,5) au(2,3) b4 by simp
qed

lemma add_analysis_record_others:
  "uid' \<noteq> uid \<Longrightarrow>
     map_of (progress_data (fst (add_analysis_record clk m uid sid score ang cats))) uid'
       = map_of (progress_data m) uid'"
proof -
  assume ne: "uid' \<noteq> uid"
  obtain p5 where "fst (add_analysis_record clk m uid sid score ang cats) =
        save_data (m\<lparr>progress_data := AList.update uid p5 (progress_data m)\<rparr>)"
    using add_analysis_record_char[of clk m uid sid score ang cats]
    by (elim exE conjE) (rule that; simp)
  then show ?thesis
    using ne by (simp add: progress_data_save_data update_conv')
qed

lemma add_analysis_record_points:
  "\<exists>p5. map_of (progress_data (fst (add_analysis_record clk m uid sid score ang cats))) uid = Some p5
      \<and> experience_points p5
          = experience_points (progress_of clk m uid) + calculate_experience_points score
      \<and> total_analyses p5 = total_analyses (progress_of clk m uid) + 1
      \<and> current_level (progress_of clk m uid) \<le> current_level p5"
proof -
  obtain p5 lvl auto_added k l5 where
    "map_of (progress_data (fst (add_analysis_record clk m uid sid score ang cats))) uid = Some p5"
    "p5 = (progress_of clk m uid)
         \<lparr>analysis_records := analysis_records (progress_of clk m uid)
             @ [\<lparr>session_id = sid, date = clk k, overall_score = score, angle = ang, category_scores = cats\<rparr>],
          total_analyses := total_analyses (progress_of clk m uid) + 1,
          last_analysis_date := Some (clk (k + 1)),
          experience_points := experience_points (progress_of clk m uid) + calculate_experience_points score,
          current_level := l5,
          badges := badges (progress_of clk m uid) @ lvl @ auto_added\<rparr>"
    "current_level (progress_of clk m uid) \<le> l5"
    using add_analysis_record_user[of clk m uid sid score ang cats]
    by (elim exE conjE) (rule that; assumption)
  then show ?thesis by simp
qed

lemma add_analysis_record_badges:
  "\<exists>p5 lvl auto_added.
      map_of (progress_data (fst (add_analysis_record clk m uid sid score ang cats))) uid = Some p5
    \<and> badges p5 = badges (progress_of clk m uid) @ lvl @ auto_added
    \<and> (lvl = [] \<or> map badge_id lvl = [''level_'' @ str_int (current_level p5)]
          \<and> current_level (progress_of clk m uid) < current_level p5)
    \<and> distinct (map badge_id auto_added)
    \<and> set (map badge_id auto_added) \<subseteq> fst ` set badge_definitions
          - badge_id ` set (badges (progress_of clk m uid) @ lvl)"
proof -
  obtain p5 lvl auto_added k l5 where f:
    "map_of (progress_data (fst (add_analysis_record clk m uid sid score ang cats))) uid = Some p5"
    "p5 = (progress_of clk m uid)
         \<lparr>analysis_records := analysis_records (progress_of clk m uid)
             @ [\<lparr>session_id = sid, date = clk k, overall_score = score, angle = ang, category_scores = cats\<rparr>],
          total_analyses := total_analyses (progress_of clk m uid) + 1,
          last_analysis_date := Some (clk (k + 1)),
          experience_points := experience_points (progress_of clk m uid) + calculate_experience_points score,
          current_level := l5,
          badges := badges (progress_of clk m uid) @ lvl @ auto_added\<rparr>"
    "current_level (progress_of clk m uid) \<le> l5"
    "lvl = [] \<and> l5 = current_level (progress_of clk m uid)
        \<or> map badge_id lvl = [''level_'' @ str_int l5]
          \<and> current_level (progress_of clk m uid) < l5"
    "distinct (map badge_id auto_added)"
    "set (map badge_id auto_added) \<subseteq> fst ` set badge_definitions
          - badge_id ` set (badges (progress_of clk m uid) @ lvl)"
    using add_analysis_record_user[of clk m uid sid score ang cats]
    by (elim exE conjE) (rule that; assumption)
  have l: "current_level p5 = l5" and b: "badges p5 = badges (progress_of clk m uid) @ lvl @ auto_added"
    using f(2) by simp_all
  show ?thesis
    apply (rule exI[of _ p5], rule exI[of _ lvl], rule exI[of _ auto_added])
    using f(1,4,5,6) l b by auto
qed

lemma experience_range: "10 \<le> calculate_experience_points score \<and> calculate_experience_points score \<le> 30"
  by (simp add: calculate_experience_points_def)

lemma apply_call_level:
  assumes "map_of (progress_data m) u = Some p"
  shows "\<exists>p'. map_of (progress_data (apply_call m c)) u = Some p' \<and> current_level p \<le> current_level p'"
proof (cases c)
  case (AddCall clk uid sid score ang cats)
  show ?thesis
  proof (cases "u = uid")
    case True
    have p0: "progress_of clk m uid = p"
      using assms True by (simp add: progress_of_def)
    obtain p5 where m5: "map_of (progress_data (fst (add_analysis_record clk m uid sid score ang cats))) uid = Some p5"
      and l5: "current_level (progress_of clk m uid) \<le> current_level p5"
      using add_analysis_record_points[of clk m uid sid score ang cats] by blast
    then show ?thesis
      using True AddCall p0 by simp
  next
    case False
    then show ?thesis
      using assms AddCall add_analysis_record_others[of u uid clk m sid score ang cats] by simp
  qed
qed

lemma run_calls_level:
  "map_of (progress_data m) u = Some p \<Longrightarrow>
     \<exists>p'. map_of (progress_data (run_calls m calls)) u = Some p' \<and> current_level p \<le> current_level p'"
proof (induction calls arbitrary: m p)
  case Nil
  then show ?case by (simp add: run_calls_def)
next
  case (Cons c calls)
  obtain p1 where p1: "map_of (progress_data (apply_call m c)) u = Some p1" "current_level p \<le> current_level p1"
    using apply_call_level[OF Cons.prems] by blast
  obtain p' where "map_of (progress_data (run_calls (apply_call m c) calls)) u = Some p'"
     "current_level p1 \<le> current_level p'"
    using Cons.IH[OF p1(1)] by blast
  then show ?case
    using p1(2) by (auto simp: run_calls_def)
qed

lemma check_badge_condition_simps:
  "check_badge_condition clk k p ''analysis_count >= 1'' = (total_analyses p \<ge> 1, k)"
  "check_badge_condition clk k p ''weekly_analyses >= 3'' =
     (sum_list (map (\<lambda>r. (1::int))
        (filter (\<lambda>r. date r \<ge> clk k - timedelta_days 7) (analysis_records p))) \<ge> 3, Suc k)"
  "check_badge_condition clk k p ''monthly_analyses >= 8'' =
     (sum_list (map (\<lambda>r. (1::int))
        (filter (\<lambda>r. date r \<ge> clk k - timedelta_days 30) (analysis_records p))) \<ge> 8, Suc k)"
  "check_badge_condition clk k p ''overall_score >= 95'' =
     (list_ex (\<lambda>r. overall_score r \<ge> 95)
        (if length (analysis_records p) \<ge> 3
         then slice_last 3 (analysis_records p) else analysis_records p), k)"
  "check_badge_condition clk k p ''total_analyses >= 50'' = (total_analyses p \<ge> 50, k)"
  "check_badge_condition clk k p ''stance_score >= 90'' = (check_category_score p ''stance'' 90, k)"
  "check_badge_condition clk k p ''swing_score >= 85'' = (check_category_score p ''swing_path'' 85, k)"
  "check_badge_condition clk k p ''balance_score >= 85'' = (check_category_score p ''balance'' 85, k)"
  "check_badge_condition clk k p ''all_categories_above_80'' = (False, k)"
  by (simp_all add: check_badge_condition_def Let_def)

lemma check_badge_condition_score_improvement:
  "check_badge_condition clk k p ''score_improvement >= 20'' =
     (if length (analysis_records p) < 5 then (False, k)
      else (case (map overall_score (take 5 (analysis_records p)),
                  map overall_score (slice_last 5 (analysis_records p))) of
              (e # es, r # rs) \<Rightarrow> (float_sub (fold max rs r) (fold max es e) \<ge> 20, k)
            | _ \<Rightarrow> (False, k)))"
  by (simp add: check_badge_condition_def Let_def)

lemma champion_condition:
  "(''improvement_champion'', bdef) \<in> set badge_definitions \<Longrightarrow>
     condition bdef = ''all_categories_above_80''"
  by (auto simp: badge_definitions_def)

lemma entries_of_append: "entries_of i (xs @ ys) = entries_of i xs @ entries_of i ys"
  by (simp add: entries_of_def)

lemma entries_of_other:
  "i \<notin> badge_id ` set bs \<Longrightarrow> entries_of i bs = []"
  by (induction bs) (auto simp: entries_of_def)

lemma award_badge_internal_other:
  assumes "award_badge_internal clk k p bid = (p', k')" and "bid \<noteq> i"
  shows "entries_of i (badges p') = entries_of i (badges p)"
proof -
  obtain added where a: "p' = p\<lparr>badges := badges p @ added\<rparr>" "set (map badge_id added) \<subseteq> {bid}"
    using award_badge_internal_le[OF assms(1)] by blast
  have "i \<notin> badge_id ` set added" using a(2) assms(2) by auto
  then show ?thesis using a(1) by (simp add: entries_of_append entries_of_other)
qed

lemma loop_no_champion:
  assumes "auto_badges_loop clk earned rest k p = (p', k')"
    and "\<And>bdef. (''improvement_champion'', bdef) \<in> set rest
           \<Longrightarrow> condition bdef = ''all_categories_above_80''"
  shows "entries_of ''improvement_champion'' (badges p') = entries_of ''improvement_champion'' (badges p)"
  using assms
proof (induction clk earned rest k p arbitrary: p' k' rule: auto_badges_loop.induct)
  case (1 clk earned k progress)
  then show ?case by simp
next
  case (2 clk earned bid bdef rest k progress)
  have rest: "\<And>d. (''improvement_champion'', d) \<in> set rest \<Longrightarrow> condition d = ''all_categories_above_80''"
    using "2.prems"(2) by simp
  show ?case
  proof (cases "\<not> auto_award bdef \<or> bid \<in> earned")
    case True
    then have "auto_badges_loop clk earned rest k progress = (p', k')"
      using "2.prems"(1) by (cases "auto_award bdef") simp_all
    then show ?thesis
      using True "2.IH"(1,2) rest by blast
  next
    case False
    then have aa: "auto_award bdef" and ne: "bid \<notin> earned" by auto
    obtain ok k1 where c: "check_badge_condition clk k progress (condition bdef) = (ok, k1)"
      by (cases "check_badge_condition clk k progress (condition bdef)")
    show ?thesis
    proof (cases ok)
      case True
      have nb: "bid \<noteq> ''improvement_champion''"
      proof
        assume "bid = ''improvement_champion''"
        then have "condition bdef = ''all_categories_above_80''"
          using "2.prems"(2)[of bdef] by simp
        then show False
          using c True by (simp add: check_badge_condition_simps)
      qed
      obtain p1 k2 where a: "award_badge_internal clk k1 progress bid = (p1, k2)"
        by (cases "award_badge_internal clk k1 progress bid")
      have l: "auto_badges_loop clk earned rest k2 p1 = (p', k')"
        using "2.prems"(1) aa ne c True a by simp
      have "entries_of ''improvement_champion'' (badges p')
              = entries_of ''improvement_champion'' (badges p1)"
        using "2.IH"(3)[OF _ ne c[symmetric] True a[symmetric] l rest] aa by simp
      then show ?thesis
        using award_badge_internal_other[OF a nb] by simp
    next
      case False
      have l: "auto_badges_loop clk earned rest k1 progress = (p', k')"
        using "2.prems"(1) aa ne c False by simp
      show ?thesis
        using "2.IH"(4)[OF _ ne c[symmetric] False l rest] aa by simp
    qed
  qed
qed

lemma check_auto_badges_no_champion:
  "entries_of ''improvement_champion'' (badges (fst (check_auto_badges clk k p)))
     = entries_of ''improvement_champion'' (badges p)"
proof -
  obtain p' k' where l: "auto_badges_loop clk (badge_id ` set (badges p)) badge_definitions k p = (p', k')"
    by (cases "auto_badges_loop clk (badge_id ` set (badges p)) badge_definitions k p")
  show ?thesis
    using loop_no_champion[OF l champion_condition] l by (simp add: check_auto_badges_def)
qed

lemma add_analysis_record_no_champion:
  "held (fst (add_analysis_record clk m uid sid score ang cats)) u ''improvement_champion''
     = held m u ''improvement_champion''"
proof (cases "u = uid")
  case True
  obtain p4 p5 k k4 k5 l5 lvl where c:
    "add_analysis_record clk m uid sid score ang cats =
        (save_data (m\<lparr>progress_data := AList.update uid p5 (progress_data m)\<rparr>),
         \<lparr>exp_gained = calculate_experience_points score, new_level = None, new_badges = []\<rparr>)"
    "p4 = (progress_of clk m uid)
         \<lparr>analysis_records := analysis_records (progress_of clk m uid)
             @ [\<lparr>session_id = sid, date = clk k, overall_score = score, angle = ang, category_scores = cats\<rparr>],
          total_analyses := total_analyses (progress_of clk m uid) + 1,
          last_analysis_date := Some (clk (k + 1)),
          experience_points := experience_points (progress_of clk m uid) + calculate_experience_points score,
          current_level := l5,
          badges := badges (progress_of clk m uid) @ lvl\<rparr>"
    "check_auto_badges clk k4 p4 = (p5, k5)"
    "current_level (progress_of clk m uid) \<le> l5"
    "lvl = [] \<and> l5 = current_level (progress_of clk m uid)
        \<or> map badge_id lvl = [''level_'' @ str_int l5]
          \<and> current_level (progress_of clk m uid) < l5"
    using add_analysis_record_char[of clk m uid sid score ang cats]
    by (elim exE conjE) (rule that; assumption)
  have e5: "entries_of ''improvement_champion'' (badges p5) = entries_of ''improvement_champion'' (badges p4)"
    using check_auto_badges_no_champion[of clk k4 p4] c(3) by simp
  have "''improvement_champion'' \<notin> badge_id ` set lvl"
  proof
    assume "''improvement_champion'' \<in> badge_id ` set lvl"
    then have "''improvement_champion'' \<in> set (map badge_id lvl)" by simp
    then show False using c(5) by auto
  qed
  then have e4: "entries_of ''improvement_champion'' (badges p4)
                   = entries_of ''improvement_champion'' (badges (progress_of clk m uid))"
    using c(2) by (simp add: entries_of_append entries_of_other)
  have h0: "held m uid ''improvement_champion''
              = entries_of ''improvement_champion'' (badges (progress_of clk m uid))"
    by (simp add: held_def progress_of_def new_UserProgress_def entries_of_def split: option.splits)
  have "held (fst (add_analysis_record clk m uid sid score ang cats)) uid ''improvement_champion''
          = entries_of ''improvement_champion'' (badges p5)"
    by (simp add: c(1) held_def progress_data_save_data update_conv')
  then show ?thesis
    using True e5 e4 h0 by simp
next
  case False
  then show ?thesis
    using add_analysis_record_others[of u uid clk m sid score ang cats] by (simp add: held_def)
qed

lemma run_calls_no_champion:
  "held (run_calls m calls) u ''improvement_champion'' = held m u ''improvement_champion''"
proof (induction calls arbitrary: m)
  case Nil
  then show ?case by (simp add: run_calls_def)
next
  case (Cons c calls)
  have "held (apply_call m c) u ''improvement_champion'' = held m u ''improvement_champion''"
    by (cases c) (simp add: add_analysis_record_no_champion)
  then show ?case
    using Cons.IH[of "apply_call m c"] by (simp add: run_calls_def)
qed

lemma entries_of_distinct:
  "distinct (map badge_id bs) \<Longrightarrow> length (entries_of i bs) \<le> 1"
proof (induction bs)
  case Nil
  then show ?case by (simp add: entries_of_def)
next
  case (Cons b bs)
  show ?case
  proof (cases "badge_id b = i")
    case True
    then have "i \<notin> badge_id ` set bs" using Cons.prems by auto
    then have "entries_of i bs = []" by (rule entries_of_other)
    then show ?thesis using True by (simp add: entries_of_def)
  next
    case False
    then show ?thesis using Cons by (simp add: entries_of_def)
  qed
qed

lemma check_auto_badges_entries:
  assumes "length (entries_of i (badges p)) \<le> 1"
  shows "length (entries_of i (badges (fst (check_auto_badges clk k p)))) \<le> 1"
proof -
  obtain p' k' where c: "check_auto_badges clk k p = (p', k')"
    by (cases "check_auto_badges clk k p")
  obtain added where a: "p' = p\<lparr>badges := badges p @ added\<rparr>" "distinct (map badge_id added)"
    "set (map badge_id added) \<subseteq> fst ` set badge_definitions - badge_id ` set (badges p)"
    using check_auto_badges_shape[OF c] by blast
  have e: "entries_of i (badges p') = entries_of i (badges p) @ entries_of i added"
    using a(1) by (simp add: entries_of_append)
  show ?thesis
  proof (cases "i \<in> badge_id ` set (badges p)")
    case True
    then have "i \<notin> badge_id ` set added" using a(3) by auto
    then have "entries_of i added = []" by (rule entries_of_other)
    then show ?thesis using assms e c by simp
  next
    case False
    then have "entries_of i (badges p) = []" by (rule entries_of_other)
    then show ?thesis using entries_of_distinct[OF a(2), of i] e c by simp
  qed
qed

lemma award_badge_False:
  assumes "map_of (progress_data m) uid = None
           \<or> map_of badge_definitions bid = None
           \<or> (\<exists>p. map_of (progress_data m) uid = Some p \<and> bid \<in> badge_id ` set (badges p))"
  shows "award_badge clk m uid bid = (m, False)"
  using assms by (auto simp: award_badge_def Let_def split: option.splits)

lemma award_badge_True:
  assumes "map_of (progress_data m) uid = Some p"
    and "map_of badge_definitions bid = Some bdef"
    and "bid \<notin> badge_id ` set (badges p)"
  shows "award_badge clk m uid bid =
           (save_data (m\<lparr>progress_data :=
              AList.update uid
                (p\<lparr>badges := badges p @
                    [\<lparr>badge_id = bid, name = def_name bdef, description = def_description bdef,
                      earned_date = clk 0, icon = def_icon bdef\<rparr>]\<rparr>)
                (progress_data m)\<rparr>), True)"
  using assms by (simp add: award_badge_def award_badge_internal_def Let_def)

lemma award_badge_success:
  assumes "snd (award_badge clk m uid bid)"
  shows "\<exists>p bdef. map_of (progress_data m) uid = Some p
           \<and> map_of badge_definitions bid = Some bdef
           \<and> bid \<notin> badge_id ` set (badges p)"
proof (rule ccontr)
  assume n: "\<not> ?thesis"
  have "map_of (progress_data m) uid = None
           \<or> map_of badge_definitions bid = None
           \<or> (\<exists>p. map_of (progress_data m) uid = Some p \<and> bid \<in> badge_id ` set (badges p))"
  proof (cases "map_of (progress_data m) uid")
    case None
    then show ?thesis by simp
  next
    case (Some p)
    then show ?thesis using n by (cases "map_of badge_definitions bid") auto
  qed
  then have "award_badge clk m uid bid = (m, False)" by (rule award_badge_False)
  then show False using assms by simp
qed

lemma award_badge_failure:
  "\<not> snd (award_badge clk m uid bid) \<Longrightarrow> award_badge clk m uid bid = (m, False)"
  by (auto simp: award_badge_def Let_def split: option.splits prod.splits if_splits)

lemma award_badge_held:
  assumes "length (held m u i) \<le> 1"
  shows "length (held (fst (award_badge clk m uid bid)) u i) \<le> 1"
proof (cases "snd (award_badge clk m uid bid)")
  case False
  then have "award_badge clk m uid bid = (m, False)"
    by (rule award_badge_failure)
  then show ?thesis using assms by simp
next
  case True
  obtain p bdef where s: "map_of (progress_data m) uid = Some p"
    "map_of badge_definitions bid = Some bdef" "bid \<notin> badge_id ` set (badges p)"
    using award_badge_success[OF True] by blast
  define b where "b = \<lparr>badge_id = bid, name = def_name bdef, description = def_description bdef,
                      earned_date = clk 0, icon = def_icon bdef\<rparr>"
  have r: "fst (award_badge clk m uid bid)
             = save_data (m\<lparr>progress_data :=
                 AList.update uid (p\<lparr>badges := badges p @ [b]\<rparr>) (progress_data m)\<rparr>)"
    using award_badge_True[OF s, of clk] by (simp add: b_def)
  show ?thesis
  proof (cases "u = uid")
    case False
    then show ?thesis
      using assms by (simp add: r held_def progress_data_save_data update_conv')
  next
    case True
    have h: "held (fst (award_badge clk m uid bid)) u i = entries_of i (badges p) @ entries_of i [b]"
      using True by (simp add: r held_def progress_data_save_data update_conv' entries_of_append)
    show ?thesis
    proof (cases "i = bid")
      case True
      then have "entries_of i (badges p) = []" using s(3) by (simp add: entries_of_other)
      then show ?thesis using h by (simp add: entries_of_def)
    next
      case False
      then have "entries_of i [b] = []" by (simp add: entries_of_def b_def)
      then show ?thesis using h assms \<open>u = uid\<close> s(1) by (simp add: held_def)
    qed
  qed
qed

lemma level_badge_not_catalog: "''level_'' @ s \<notin> fst ` set badge_definitions"
  by (simp add: badge_definitions_def)

lemma held_progress_of: "held m uid i = entries_of i (badges (progress_of clk m uid))"
  by (simp add: held_def progress_of_def new_UserProgress_def entries_of_def split: option.splits)

lemma add_analysis_record_held:
  assumes "i \<in> fst ` set badge_definitions" and "length (held m u i) \<le> 1"
  shows "length (held (fst (add_analysis_record clk m uid sid score ang cats)) u i) \<le> 1"
proof (cases "u = uid")
  case False
  then show ?thesis
    using assms(2) add_analysis_record_others[of u uid clk m sid score ang cats]
    by (simp add: held_def)
next
  case True
  obtain p5 lvl auto_added where f:
    "map_of (progress_data (fst (add_analysis_record clk m uid sid score ang cats))) uid = Some p5"
    "badges p5 = badges (progress_of clk m uid) @ lvl @ auto_added"
    "lvl = [] \<or> map badge_id lvl = [''level_'' @ str_int (current_level p5)]
          \<and> current_level (progress_of clk m uid) < current_level p5"
    "distinct (map badge_id auto_added)"
    "set (map badge_id auto_added) \<subseteq> fst ` set badge_definitions
          - badge_id ` set (badges (progress_of clk m uid) @ lvl)"
    using add_analysis_record_badges[of clk m uid sid score ang cats]
    by (elim exE conjE) (rule that; assumption)
  have "i \<notin> set (map badge_id lvl)"
  proof
    assume "i \<in> set (map badge_id lvl)"
    then have "i = ''level_'' @ str_int (current_level p5)"
      using f(3) by auto
    then show False
      using assms(1) level_badge_not_catalog[of "str_int (current_level p5)"] by simp
  qed
  then have el: "entries_of i lvl = []"
    by (simp add: entries_of_other)
  have h: "held (fst (add_analysis_record clk m uid sid score ang cats)) uid i
             = entries_of i (badges (progress_of clk m uid)) @ entries_of i auto_added"
    by (simp add: held_def f(1,2) entries_of_append el)
  have h0: "length (entries_of i (badges (progress_of clk m uid))) \<le> 1"
    using assms(2) True held_progress_of[of m uid i clk] by simp
  show ?thesis
  proof (cases "i \<in> badge_id ` set (badges (progress_of clk m uid))")
    case True
    then have "i \<notin> badge_id ` set auto_added" using f(5) by auto
    then have "entries_of i auto_added = []" by (rule entries_of_other)
    then show ?thesis using h h0 \<open>u = uid\<close> by simp
  next
    case False
    then have "entries_of i (badges (progress_of clk m uid)) = []" by (rule entries_of_other)
    then show ?thesis using h entries_of_distinct[OF f(4), of i] \<open>u = uid\<close> by simp
  qed
qed

lemma load_all_map:
  "(\<And>x. x \<in> set xs \<Longrightarrow> f (g x) = Loaded (h x)) \<Longrightarrow> load_all f (map g xs) = Loaded (map h xs)"
  by (induction xs) simp_all

lemma load_record_to_dict: "load_record (AnalysisRecord_to_dict r) = Loaded (stored_record r)"
proof -
  have c: "(case category_scores r of None \<Rightarrow> [] | Some d \<Rightarrow> if d = [] then [] else d)
             = (case category_scores r of None \<Rightarrow> [] | Some d \<Rightarrow> d)"
    by (simp split: option.splits)
  have la: "load_all (\<lambda>(k, v). case load_float v of
                                  Loaded x \<Rightarrow> Loaded (k, x) | Raises \<Rightarrow> Raises | Untyped \<Rightarrow> Untyped)
              (map (\<lambda>(k, v). (k, JFloat v)) (case category_scores r of None \<Rightarrow> [] | Some d \<Rightarrow> d))
            = Loaded (map (\<lambda>x. x) (case category_scores r of None \<Rightarrow> [] | Some d \<Rightarrow> d))"
    by (rule load_all_map) auto
  show ?thesis
    unfolding load_record_def AnalysisRecord_to_dict_def c
    by (simp add: la stored_record_def)
qed

lemma load_badge_to_dict: "load_badge (Badge_to_dict b) = Loaded b"
  unfolding load_badge_def Badge_to_dict_def by simp

lemma load_user_user_dict: "load_user (user_dict p) = Loaded (stored_progress p)"
proof -
  have r: "load_all load_record (map AnalysisRecord_to_dict (analysis_records p))
             = Loaded (map stored_record (analysis_records p))"
    by (rule load_all_map) (rule load_record_to_dict)
  have b: "load_all load_badge (map Badge_to_dict (badges p)) = Loaded (map (\<lambda>x. x) (badges p))"
    by (rule load_all_map) (rule load_badge_to_dict)
  have l: "load_last_analysis_date
             (Some (case last_analysis_date p of None \<Rightarrow> JNull | Some d \<Rightarrow> JIso d))
           = Loaded (last_analysis_date p)"
    by (cases "last_analysis_date p") simp_all
  show ?thesis
    unfolding load_user_def user_dict_def
    by (simp add: r b l stored_progress_def)
qed

lemma update_new_key: "k \<notin> fst ` set al \<Longrightarrow> AList.update k v al = al @ [(k, v)]"
  by (induction al) auto

lemma save_fold:
  "distinct (map fst xs) \<Longrightarrow> fst ` set acc \<inter> fst ` set xs = {} \<Longrightarrow>
     fold (\<lambda>(uid, progress) save_data. AList.update uid (user_dict progress) save_data) xs acc
       = acc @ map (\<lambda>(uid, progress). (uid, user_dict progress)) xs"
proof (induction xs arbitrary: acc)
  case Nil
  then show ?case by simp
next
  case (Cons x xs)
  obtain uid p where x: "x = (uid, p)" by (cases x)
  have n: "uid \<notin> fst ` set acc" using Cons.prems(2) x by auto
  have d: "distinct (map fst xs)" and nx: "uid \<notin> fst ` set xs" using Cons.prems(1) x by auto
  have i: "fst ` set (acc @ [(uid, user_dict p)]) \<inter> fst ` set xs = {}"
    using Cons.prems(2) nx x by auto
  show ?case
    using Cons.IH[OF d i] by (simp add: x update_new_key[OF n])
qed

lemma load_items_saved:
  "distinct (map fst xs) \<Longrightarrow> fst ` set acc \<inter> fst ` set xs = {} \<Longrightarrow>
     load_items (map (\<lambda>(uid, progress). (uid, user_dict progress)) xs) acc
       = Loaded (acc @ map (\<lambda>(uid, progress). (uid, stored_progress progress)) xs)"
proof (induction xs arbitrary: acc)
  case Nil
  then show ?case by simp
next
  case (Cons x xs)
  obtain uid p where x: "x = (uid, p)" by (cases x)
  have n: "uid \<notin> fst ` set acc" using Cons.prems(2) x by auto
  have d: "distinct (map fst xs)" and nx: "uid \<notin> fst ` set xs" using Cons.prems(1) x by auto
  have i: "fst ` set (acc @ [(uid, stored_progress p)]) \<inter> fst ` set xs = {}"
    using Cons.prems(2) nx x by auto
  show ?case
    using Cons.IH[OF d i] by (simp add: x load_user_user_dict update_new_key[OF n])
qed

lemma stored_record_id: "category_scores r \<noteq> None \<Longrightarrow> stored_record r = r"
  by (cases "category_scores r") (simp_all add: stored_record_def)

lemma stored_progress_id:
  "(\<And>r. r \<in> set (analysis_records p) \<Longrightarrow> category_scores r \<noteq> None) \<Longrightarrow> stored_progress p = p"
  by (simp add: stored_progress_def stored_record_id map_idI)

lemma round_half_even_minus: "round_half_even (- y) = - round_half_even y"
proof (cases "y = of_int \<lfloor>y\<rfloor>")
  case True
  then obtain n :: int where n: "y = of_int n" by metis
  show ?thesis by (simp add: n round_half_even_def)
next
  case False
  then have nz: "y \<notin> \<int>" by (metis Ints_cases floor_of_int)
  have f: "\<lfloor>- y\<rfloor> = - \<lfloor>y\<rfloor> - 1"
    using nz False by (simp add: floor_minus ceiling_altdef)
  have d: "0 < y - of_int \<lfloor>y\<rfloor>" "y - of_int \<lfloor>y\<rfloor> < 1"
    using False by linarith+
  show ?thesis
    unfolding round_half_even_def Let_def f
    using d by (auto simp: algebra_simps)
qed

lemma round_half_even_nonpos: "y \<le> 0 \<Longrightarrow> round_half_even y \<le> 0"
proof -
  assume y: "y \<le> 0"
  have f: "\<lfloor>y\<rfloor> \<le> 0" using y by linarith
  show ?thesis
  proof (cases "\<lfloor>y\<rfloor> = 0")
    case True
    then have "y = 0" using y by linarith
    then show ?thesis by (simp add: round_half_even_def)
  next
    case False
    then have "\<lfloor>y\<rfloor> + 1 \<le> 0" using f by linarith
    then show ?thesis using f by (simp add: round_half_even_def Let_def)
  qed
qed

lemma binade_minus: "binade (- x) = binade x"
  by (simp add: binade_def)

lemma double_round_minus: "double_round (- x) = - double_round x"
  by (simp add: double_round_def binade_minus Let_def round_half_even_minus)

lemma double_round_nonpos: "x \<le> 0 \<Longrightarrow> double_round x \<le> 0"
proof -
  assume x: "x \<le> 0"
  define e where "e = max (binade x) (- 1022) - 52"
  define u :: real where "u = (if e \<ge> 0 then 2 ^ nat e else 1 / 2 ^ nat (- e))"
  have u: "0 < u" by (simp add: u_def)
  have "x / u \<le> 0" using x u by (simp add: divide_nonpos_pos)
  then have "round_half_even (x / u) \<le> 0" by (rule round_half_even_nonpos)
  then have r: "of_int (round_half_even (x / u)) * u \<le> 0"
    using u by (simp add: mult_le_0_iff)
  show ?thesis
  proof (cases "x = 0")
    case True
    then show ?thesis by (simp add: double_round_def)
  next
    case False
    have "double_round x = of_int (round_half_even (x / u)) * u"
      by (simp only: double_round_def Let_def e_def u_def False if_False)
    then show ?thesis using r by simp
  qed
qed

lemma float_sub_abs: "l \<le> f \<Longrightarrow> \<bar>float_sub l f\<bar> = float_sub f l"
proof -
  assume "l \<le> f"
  then have "double_round (l - f) \<le> 0" by (intro double_round_nonpos) simp
  moreover have "double_round (f - l) = - double_round (l - f)"
    using double_round_minus[of "l - f"] by simp
  ultimately show ?thesis by (simp add: float_sub_def)
qed

section \<open>Properties\<close>

text \<open>
  C1. \<^verbatim>\<open>add_analysis_record\<close> evaluated on five calls for a new user, each with the score 90.
  The first call awards the badge \<^verbatim>\<open>first_analysis\<close>, and the fifth raises the level from 1
  to 2 and awards \<^verbatim>\<open>level_2\<close>; both return \<^verbatim>\<open>new_level = None\<close> and an empty
  \<^verbatim>\<open>new_badges\<close>. The source compares \<^verbatim>\<open>new_level\<close> with \<^verbatim>\<open>progress.current_level\<close> after it
  has assigned the one to the other, and returns the literal \<^verbatim>\<open>[]\<close> for the badges.
\<close>

theorem add_analysis_record_result_at_level_up:
  "(let m0 = \<lparr>progress_data = [], data_file = Missing\<rparr>;
        first_call = add_analysis_record (\<lambda>k. 1000 + int k) m0 ''u'' ''s1'' 90 ''front'' None;
        m4 = run_calls m0
               [AddCall (\<lambda>k. 1000 + int k) ''u'' ''s1'' 90 ''front'' None,
                AddCall (\<lambda>k. 2000 + int k) ''u'' ''s2'' 90 ''front'' None,
                AddCall (\<lambda>k. 3000 + int k) ''u'' ''s3'' 90 ''front'' None,
                AddCall (\<lambda>k. 4000 + int k) ''u'' ''s4'' 90 ''front'' None];
        fifth_call = add_analysis_record (\<lambda>k. 5000 + int k) m4 ''u'' ''s5'' 90 ''front'' None
    in map_of (progress_data m0) ''u'' = None
     \<and> map_option (map badge_id \<circ> badges) (map_of (progress_data (fst first_call)) ''u'')
          = Some [''first_analysis'']
     \<and> snd first_call = \<lparr>exp_gained = 30, new_level = None, new_badges = []\<rparr>
     \<and> map_option current_level (map_of (progress_data m4) ''u'') = Some 1
     \<and> map_option (map badge_id \<circ> badges) (map_of (progress_data m4) ''u'')
          = Some [''first_analysis'', ''consistent_week'']
     \<and> map_option current_level (map_of (progress_data (fst fifth_call)) ''u'') = Some 2
     \<and> map_option (map badge_id \<circ> badges) (map_of (progress_data (fst fifth_call)) ''u'')
          = Some [''first_analysis'', ''consistent_week'', ''level_2'']
     \<and> snd fifth_call = \<lparr>exp_gained = 30, new_level = None, new_badges = []\<rparr>)"
proof -
  define r where "r = (\<lambda>sid t. \<lparr>session_id = sid, date = t, overall_score = 90, angle = ''front'',
                                 category_scores = None\<rparr>)"
  define bd where "bd = (\<lambda>bid. the (map_of badge_definitions bid))"
  define keys where "keys = [''first_analysis'', ''consistent_week'', ''form_improver'',
    ''stance_master'', ''swing_artist'', ''balance_keeper'', ''monthly_warrior'', ''perfectionist'',
    ''dedicated_student'', ''improvement_champion'']"
  define b where "b = (\<lambda>bid t. \<lparr>badge_id = bid, name = def_name (bd bid),
                                 description = def_description (bd bid),
                                 earned_date = t, icon = def_icon (bd bid)\<rparr>)"
  define P where "P = (\<lambda>n rs bs t.
      \<lparr>user_id = ''u'', total_analyses = n, current_level = 1, experience_points = 30 * n,
       analysis_records = rs, badges = bs, created_date = 1000, last_analysis_date = Some t\<rparr>)"
  define m0 where "m0 = \<lparr>progress_data = [], data_file = Missing\<rparr>"
  define m1 where "m1 = apply_call m0 (AddCall (\<lambda>k. 1000 + int k) ''u'' ''s1'' 90 ''front'' None)"
  define m2 where "m2 = apply_call m1 (AddCall (\<lambda>k. 2000 + int k) ''u'' ''s2'' 90 ''front'' None)"
  define m3 where "m3 = apply_call m2 (AddCall (\<lambda>k. 3000 + int k) ''u'' ''s3'' 90 ''front'' None)"
  define m4 where "m4 = apply_call m3 (AddCall (\<lambda>k. 4000 + int k) ''u'' ''s4'' 90 ''front'' None)"
  have catalog: "badge_definitions = map (\<lambda>bid. (bid, bd bid)) keys"
    by (simp add: badge_definitions_def keys_def bd_def)
  have lookup: "map_of badge_definitions ''first_analysis'' = Some (bd ''first_analysis'')"
    "map_of badge_definitions ''consistent_week'' = Some (bd ''consistent_week'')"
    by (simp_all add: badge_definitions_def bd_def)
  have fields:
    "auto_award (bd ''first_analysis'')" "condition (bd ''first_analysis'') = ''analysis_count >= 1''"
    "auto_award (bd ''consistent_week'')" "condition (bd ''consistent_week'') = ''weekly_analyses >= 3''"
    "auto_award (bd ''form_improver'')" "condition (bd ''form_improver'') = ''score_improvement >= 20''"
    "auto_award (bd ''stance_master'')" "condition (bd ''stance_master'') = ''stance_score >= 90''"
    "auto_award (bd ''swing_artist'')" "condition (bd ''swing_artist'') = ''swing_score >= 85''"
    "auto_award (bd ''balance_keeper'')" "condition (bd ''balance_keeper'') = ''balance_score >= 85''"
    "auto_award (bd ''monthly_warrior'')" "condition (bd ''monthly_warrior'') = ''monthly_analyses >= 8''"
    "auto_award (bd ''perfectionist'')" "condition (bd ''perfectionist'') = ''overall_score >= 95''"
    "auto_award (bd ''dedicated_student'')" "condition (bd ''dedicated_student'') = ''total_analyses >= 50''"
    "auto_award (bd ''improvement_champion'')"
    "condition (bd ''improvement_champion'') = ''all_categories_above_80''"
    by (simp_all add: bd_def badge_definitions_def)
  note defs = new_UserProgress_def calculate_experience_points_def
    check_level_up_def level_requirements_def award_level_up_badge_def
    check_auto_badges_def catalog keys_def lookup fields check_badge_condition_simps
    check_badge_condition_score_improvement award_badge_internal_def check_category_score_def
    slice_last_def timedelta_days_def Let_def progress_data_save_data str_int_def
    float_sub_def double_round_def r_def b_def P_def
  have c1: "(case add_analysis_record (\<lambda>k. 1000 + int k) m0 ''u'' ''s1'' 90 ''front'' None of
               (m, res) \<Rightarrow> (progress_data m, res))
             = ([(''u'', P 1 [r ''s1'' 1001] [b ''first_analysis'' 1003] 1002)],
                \<lparr>exp_gained = 30, new_level = None, new_badges = []\<rparr>)"
    unfolding add_analysis_record_def Let_def by (simp add: m0_def defs)
  have s1: "progress_data m1 = [(''u'', P 1 [r ''s1'' 1001] [b ''first_analysis'' 1003] 1002)]"
    and r1: "snd (add_analysis_record (\<lambda>k. 1000 + int k) m0 ''u'' ''s1'' 90 ''front'' None)
               = \<lparr>exp_gained = 30, new_level = None, new_badges = []\<rparr>"
    unfolding m1_def apply_call.simps using c1 by (simp_all add: case_prod_beta)
  have s2: "progress_data m2
              = [(''u'', P 2 [r ''s1'' 1001, r ''s2'' 2000] [b ''first_analysis'' 1003] 2001)]"
    unfolding m2_def apply_call.simps add_analysis_record_def Let_def by (simp add: s1 defs)
  have s3: "progress_data m3
              = [(''u'', P 3 [r ''s1'' 1001, r ''s2'' 2000, r ''s3'' 3000]
                   [b ''first_analysis'' 1003, b ''consistent_week'' 3003] 3001)]"
    unfolding m3_def apply_call.simps add_analysis_record_def Let_def by (simp add: s2 defs)
  have s4: "progress_data m4
              = [(''u'', P 4 [r ''s1'' 1001, r ''s2'' 2000, r ''s3'' 3000, r ''s4'' 4000]
                   [b ''first_analysis'' 1003, b ''consistent_week'' 3003] 4001)]"
    unfolding m4_def apply_call.simps add_analysis_record_def Let_def by (simp add: s3 defs)
  have c5: "(case add_analysis_record (\<lambda>k. 5000 + int k) m4 ''u'' ''s5'' 90 ''front'' None of
               (m, res) \<Rightarrow> (progress_data m, res))
             = ([(''u'', (P 5 [r ''s1'' 1001, r ''s2'' 2000, r ''s3'' 3000, r ''s4'' 4000, r ''s5'' 5000]
                   [b ''first_analysis'' 1003, b ''consistent_week'' 3003,
                    \<lparr>badge_id = ''level_2'',
                     name = unicode [0x30EC, 0x30D9, 0x30EB] @ ''2'' @ unicode [0x9054, 0x6210],
                     description = unicode [0x30EC, 0x30D9, 0x30EB] @ ''2''
                       @ unicode [0x306B, 0x5230, 0x9054, 0x3057, 0x307E, 0x3057, 0x305F],
                     earned_date = 5002, icon = unicode [0x2B50]\<rparr>] 5001)
                  \<lparr>current_level := 2\<rparr>)],
                \<lparr>exp_gained = 30, new_level = None, new_badges = []\<rparr>)"
    unfolding add_analysis_record_def Let_def by (simp add: s4 defs)
  have s5: "map_option current_level
              (map_of (progress_data (fst (add_analysis_record (\<lambda>k. 5000 + int k) m4
                 ''u'' ''s5'' 90 ''front'' None))) ''u'') = Some 2"
       "map_option (map badge_id \<circ> badges)
              (map_of (progress_data (fst (add_analysis_record (\<lambda>k. 5000 + int k) m4
                 ''u'' ''s5'' 90 ''front'' None))) ''u'')
          = Some [''first_analysis'', ''consistent_week'', ''level_2'']"
       "snd (add_analysis_record (\<lambda>k. 5000 + int k) m4 ''u'' ''s5'' 90 ''front'' None)
          = \<lparr>exp_gained = 30, new_level = None, new_badges = []\<rparr>"
    using c5 by (simp_all add: case_prod_beta P_def b_def)
  have run: "run_calls m0
               [AddCall (\<lambda>k. 1000 + int k) ''u'' ''s1'' 90 ''front'' None,
                AddCall (\<lambda>k. 2000 + int k) ''u'' ''s2'' 90 ''front'' None,
                AddCall (\<lambda>k. 3000 + int k) ''u'' ''s3'' 90 ''front'' None,
                AddCall (\<lambda>k. 4000 + int k) ''u'' ''s4'' 90 ''front'' None] = m4"
    unfolding run_calls_def m4_def m3_def m2_def m1_def by (simp only: foldl.simps)
  have f1: "fst (add_analysis_record (\<lambda>k. 1000 + int k) m0 ''u'' ''s1'' 90 ''front'' None) = m1"
    unfolding m1_def by (simp only: apply_call.simps)
  have b1: "map_option (map badge_id \<circ> badges) (map_of (progress_data m1) ''u'')
              = Some [''first_analysis'']"
    by (simp add: s1 P_def b_def)
  have l4: "map_option current_level (map_of (progress_data m4) ''u'') = Some 1"
    and b4: "map_option (map badge_id \<circ> badges) (map_of (progress_data m4) ''u'')
              = Some [''first_analysis'', ''consistent_week'']"
    by (simp_all add: s4 P_def b_def)
  have e0: "map_of (progress_data m0) ''u'' = None"
    by (simp add: m0_def)
  show ?thesis
    unfolding Let_def m0_def[symmetric] run f1
    using e0 b1 r1 l4 b4 s5 by (simp only: simp_thms)
qed

text \<open>
  C2. Along any sequence of \<^verbatim>\<open>add_analysis_record\<close> calls (for any users, with any scores),
  the level of a user never goes down: the level a user has at some point of the sequence
  is at most the level the user has at any later point.
\<close>

theorem level_monotone:
  "map_of (progress_data (run_calls m before)) uid = Some p \<Longrightarrow>
     \<exists>p'. map_of (progress_data (run_calls m (before @ after))) uid = Some p'
          \<and> current_level p \<le> current_level p'"
  using run_calls_level[of "run_calls m before" uid p after]
  by (simp add: run_calls_def)


theorem level_monotone_witness:
  "\<exists>p p'. map_of (progress_data (run_calls \<lparr>progress_data = [], data_file = Missing\<rparr>
                  [AddCall (\<lambda>k. 1000 + int k) ''u'' ''s1'' 95 ''front'' None])) ''u'' = Some p
     \<and> map_of (progress_data (run_calls \<lparr>progress_data = [], data_file = Missing\<rparr>
                  ([AddCall (\<lambda>k. 1000 + int k) ''u'' ''s1'' 95 ''front'' None]
                   @ [AddCall (\<lambda>k. 2000 + int k) ''u'' ''s2'' 40 ''side'' None]))) ''u'' = Some p'
     \<and> current_level p \<le> current_level p'"
proof -
  obtain p where p: "map_of (progress_data (run_calls \<lparr>progress_data = [], data_file = Missing\<rparr>
                  [AddCall (\<lambda>k. 1000 + int k) ''u'' ''s1'' 95 ''front'' None])) ''u'' = Some p"
    using add_analysis_record_points[of "\<lambda>k. 1000 + int k" "\<lparr>progress_data = [], data_file = Missing\<rparr>"
            "''u''" "''s1''" 95 "''front''" None]
    by (auto simp: run_calls_def)
  from level_monotone[OF p, of "[AddCall (\<lambda>k. 2000 + int k) ''u'' ''s2'' 40 ''side'' None]"] p
  show ?thesis by blast
qed

text \<open>
  C3. Awarding a badge id a second time never gives a user two entries with that id. One
  run of the automatic badge evaluator keeps at most one entry of every id of which there
  was at most one; so does a whole \<^verbatim>\<open>add_analysis_record\<close> call for every id of the
  catalog, and a manual \<^verbatim>\<open>award_badge\<close> for every id, whatever the user. A manual award of
  an id the user holds returns false and changes nothing; and after a manual award that
  succeeded the user holds exactly one entry of the id, and awarding it again returns
  false.
\<close>

theorem badge_award_idempotent:
  "(length (entries_of i (badges p)) \<le> 1 \<longrightarrow>
      length (entries_of i (badges (fst (check_auto_badges clk k p)))) \<le> 1)
   \<and> (i \<in> fst ` set badge_definitions \<and> length (held m u i) \<le> 1 \<longrightarrow>
        length (held (fst (add_analysis_record clk m uid sid score ang cats)) u i) \<le> 1)
   \<and> (length (held m u i) \<le> 1 \<longrightarrow> length (held (fst (award_badge clk m uid bid)) u i) \<le> 1)
   \<and> (held m uid bid \<noteq> [] \<longrightarrow> award_badge clk m uid bid = (m, False))
   \<and> (snd (award_badge clk m uid bid) \<longrightarrow>
        length (held (fst (award_badge clk m uid bid)) uid bid) = 1
        \<and> award_badge clk' (fst (award_badge clk m uid bid)) uid bid
            = (fst (award_badge clk m uid bid), False))"
proof (intro conjI impI)
  assume "length (entries_of i (badges p)) \<le> 1"
  then show "length (entries_of i (badges (fst (check_auto_badges clk k p)))) \<le> 1"
    by (rule check_auto_badges_entries)
next
  assume "i \<in> fst ` set badge_definitions \<and> length (held m u i) \<le> 1"
  then show "length (held (fst (add_analysis_record clk m uid sid score ang cats)) u i) \<le> 1"
    using add_analysis_record_held by blast
next
  assume "length (held m u i) \<le> 1"
  then show "length (held (fst (award_badge clk m uid bid)) u i) \<le> 1"
    by (rule award_badge_held)
next
  assume h: "held m uid bid \<noteq> []"
  then obtain p where p: "map_of (progress_data m) uid = Some p" "entries_of bid (badges p) \<noteq> []"
    by (auto simp: held_def split: option.splits)
  have "bid \<in> badge_id ` set (badges p)"
    using p(2) entries_of_other[of bid "badges p"] by blast
  then show "award_badge clk m uid bid = (m, False)"
    using p(1) award_badge_False[of m uid bid clk] by blast
next
  assume t: "snd (award_badge clk m uid bid)"
  obtain p bdef where s: "map_of (progress_data m) uid = Some p"
    "map_of badge_definitions bid = Some bdef" "bid \<notin> badge_id ` set (badges p)"
    using award_badge_success[OF t] by blast
  define b where "b = \<lparr>badge_id = bid, name = def_name bdef, description = def_description bdef,
                      earned_date = clk 0, icon = def_icon bdef\<rparr>"
  have r: "fst (award_badge clk m uid bid)
             = save_data (m\<lparr>progress_data :=
                 AList.update uid (p\<lparr>badges := badges p @ [b]\<rparr>) (progress_data m)\<rparr>)"
    using award_badge_True[OF s, of clk] by (simp add: b_def)
  have m': "map_of (progress_data (fst (award_badge clk m uid bid))) uid
              = Some (p\<lparr>badges := badges p @ [b]\<rparr>)"
    by (simp add: r progress_data_save_data update_conv')
  have "entries_of bid (badges p) = []" using s(3) by (rule entries_of_other)
  then show "length (held (fst (award_badge clk m uid bid)) uid bid) = 1"
    by (simp add: held_def m' entries_of_append) (simp add: entries_of_def b_def)
  have "bid \<in> badge_id ` set (badges (p\<lparr>badges := badges p @ [b]\<rparr>))"
    by (simp add: b_def)
  then show "award_badge clk' (fst (award_badge clk m uid bid)) uid bid
            = (fst (award_badge clk m uid bid), False)"
    using m' award_badge_False[of "fst (award_badge clk m uid bid)" uid bid clk'] by blast
qed

theorem badge_award_idempotent_witness:
  "length (entries_of ''first_analysis''
      (badges (fst (check_auto_badges (\<lambda>k. 1000 + int k) 0
         (fst (new_UserProgress (\<lambda>k. 5 + int k) 0 ''u'')))))) \<le> 1
   \<and> length (held (fst (add_analysis_record (\<lambda>k. 3000 + int k)
         \<lparr>progress_data = [(''u'', fst (new_UserProgress (\<lambda>k. 5 + int k) 0 ''u''))], data_file = Missing\<rparr>
         ''u'' ''s1'' 50 ''front'' None)) ''u'' ''first_analysis'') \<le> 1
   \<and> length (held (fst (award_badge (\<lambda>k. 1000 + int k)
         \<lparr>progress_data = [(''u'', fst (new_UserProgress (\<lambda>k. 5 + int k) 0 ''u''))], data_file = Missing\<rparr>
         ''u'' ''dedicated_student'')) ''u'' ''dedicated_student'') = 1
   \<and> award_badge (\<lambda>k. 2000 + int k)
         (fst (award_badge (\<lambda>k. 1000 + int k)
           \<lparr>progress_data = [(''u'', fst (new_UserProgress (\<lambda>k. 5 + int k) 0 ''u''))], data_file = Missing\<rparr>
           ''u'' ''dedicated_student'')) ''u'' ''dedicated_student''
       = (fst (award_badge (\<lambda>k. 1000 + int k)
           \<lparr>progress_data = [(''u'', fst (new_UserProgress (\<lambda>k. 5 + int k) 0 ''u''))], data_file = Missing\<rparr>
           ''u'' ''dedicated_student''), False)
   \<and> award_badge (\<lambda>k. 1000 + int k)
         \<lparr>progress_data =
            [(''u'', fst (new_UserProgress (\<lambda>k. 5 + int k) 0 ''u'')
                \<lparr>badges := [\<lparr>badge_id = ''swing_artist'', name = ''n'', description = ''d'',
                              earned_date = 7, icon = ''i''\<rparr>]\<rparr>)],
          data_file = Missing\<rparr> ''u'' ''swing_artist''
       = (\<lparr>progress_data =
            [(''u'', fst (new_UserProgress (\<lambda>k. 5 + int k) 0 ''u'')
                \<lparr>badges := [\<lparr>badge_id = ''swing_artist'', name = ''n'', description = ''d'',
                              earned_date = 7, icon = ''i''\<rparr>]\<rparr>)],
          data_file = Missing\<rparr>, False)"
proof -
  let ?clk = "\<lambda>k. 1000 + int k"
  let ?p = "fst (new_UserProgress (\<lambda>k. 5 + int k) 0 ''u'')"
  let ?m1 = "\<lparr>progress_data = [(''u'', ?p)], data_file = Missing\<rparr>"
  let ?m2 = "\<lparr>progress_data =
            [(''u'', ?p\<lparr>badges := [\<lparr>badge_id = ''swing_artist'', name = ''n'', description = ''d'',
                              earned_date = 7, icon = ''i''\<rparr>]\<rparr>)],
          data_file = Missing\<rparr>"
  have h1: "length (entries_of ''first_analysis'' (badges ?p)) \<le> 1"
    by (simp add: new_UserProgress_def entries_of_def)
  have h2: "length (held ?m1 ''u'' ''dedicated_student'') \<le> 1"
    by (simp add: new_UserProgress_def entries_of_def held_def)
  have h5: "''first_analysis'' \<in> fst ` set badge_definitions"
    and h6: "length (held ?m1 ''u'' ''first_analysis'') \<le> 1"
    by (simp_all add: badge_definitions_def new_UserProgress_def entries_of_def held_def)
  have h3: "held ?m2 ''u'' ''swing_artist'' \<noteq> []"
    by (simp add: new_UserProgress_def entries_of_def held_def)
  have h4: "snd (award_badge ?clk ?m1 ''u'' ''dedicated_student'')"
    by (simp add: award_badge_def award_badge_internal_def badge_definitions_def
          new_UserProgress_def Let_def)
  have a: "length (held (fst (add_analysis_record (\<lambda>k. 3000 + int k) ?m1 ''u'' ''s1'' 50 ''front'' None))
              ''u'' ''first_analysis'') \<le> 1"
    using h5 h6
      badge_award_idempotent[where i = "''first_analysis''" and m = ?m1 and u = "''u''"
        and clk = "\<lambda>k. 3000 + int k" and uid = "''u''" and sid = "''s1''" and score = 50
        and ang = "''front''" and cats = None]
    by blast
  show ?thesis
    using a h1 h2 h4
      badge_award_idempotent[where i = "''first_analysis''" and p = ?p and clk = ?clk and k = 0
        and m = ?m1 and u = "''u''" and uid = "''u''" and bid = "''dedicated_student''"
        and clk' = "\<lambda>k. 2000 + int k"]
      h3 badge_award_idempotent[where m = ?m2 and uid = "''u''" and bid = "''swing_artist''"
        and clk = ?clk]
    by simp
qed

text \<open>
  C4. The experience of a score is 10 base points plus the bonus of its tier: 20 from 90,
  15 from 80, 10 from 70, 5 from 60 and nothing below 60. It is a function of the score
  alone, and it maps 95 to 30, 85 to 25, 72 to 20, 65 to 15 and 40 to 10.
\<close>

theorem experience_tiers:
  "calculate_experience_points score =
     10 + (if score \<ge> 90 then 20 else if score \<ge> 80 then 15
           else if score \<ge> 70 then 10 else if score \<ge> 60 then 5 else 0)
   \<and> calculate_experience_points 95 = 30
   \<and> calculate_experience_points 85 = 25
   \<and> calculate_experience_points 72 = 20
   \<and> calculate_experience_points 65 = 15
   \<and> calculate_experience_points 40 = 10"
  by (simp add: calculate_experience_points_def)

text \<open>
  C5, as stated: writing the store and reading it back gives every aggregate back field
  for field. This fails for a record added without category scores: \<^verbatim>\<open>to_dict\<close> writes
  \<^verbatim>\<open>self.category_scores or {}\<close>, so the \<^verbatim>\<open>None\<close> of the record comes back as the empty
  dictionary.
\<close>

theorem roundtrip_counterexample:
  "load_data (data_file (save_data
      \<lparr>progress_data =
         [(''u'', \<lparr>user_id = ''u'', total_analyses = 1, current_level = 1, experience_points = 10,
                  analysis_records =
                    [\<lparr>session_id = ''s1'', date = 1001, overall_score = 50, angle = ''front'',
                      category_scores = None\<rparr>],
                  badges =
                    [\<lparr>badge_id = ''first_analysis'', name = ''n'', description = ''d'',
                      earned_date = 1003, icon = ''i''\<rparr>],
                  created_date = 1000, last_analysis_date = Some 1002\<rparr>)],
       data_file = Missing\<rparr>))
   = Loaded
       [(''u'', \<lparr>user_id = ''u'', total_analyses = 1, current_level = 1, experience_points = 10,
                analysis_records =
                  [\<lparr>session_id = ''s1'', date = 1001, overall_score = 50, angle = ''front'',
                    category_scores = Some []\<rparr>],
                badges =
                  [\<lparr>badge_id = ''first_analysis'', name = ''n'', description = ''d'',
                    earned_date = 1003, icon = ''i''\<rparr>],
                created_date = 1000, last_analysis_date = Some 1002\<rparr>)]
   \<and> load_data (data_file (save_data
      \<lparr>progress_data =
         [(''u'', \<lparr>user_id = ''u'', total_analyses = 1, current_level = 1, experience_points = 10,
                  analysis_records =
                    [\<lparr>session_id = ''s1'', date = 1001, overall_score = 50, angle = ''front'',
                      category_scores = None\<rparr>],
                  badges =
                    [\<lparr>badge_id = ''first_analysis'', name = ''n'', description = ''d'',
                      earned_date = 1003, icon = ''i''\<rparr>],
                  created_date = 1000, last_analysis_date = Some 1002\<rparr>)],
       data_file = Missing\<rparr>))
   \<noteq> Loaded
       [(''u'', \<lparr>user_id = ''u'', total_analyses = 1, current_level = 1, experience_points = 10,
                analysis_records =
                  [\<lparr>session_id = ''s1'', date = 1001, overall_score = 50, angle = ''front'',
                    category_scores = None\<rparr>],
                badges =
                  [\<lparr>badge_id = ''first_analysis'', name = ''n'', description = ''d'',
                    earned_date = 1003, icon = ''i''\<rparr>],
                created_date = 1000, last_analysis_date = Some 1002\<rparr>)]"
  by (simp add: save_data_def load_data_def user_dict_def load_user_def
        AnalysisRecord_to_dict_def Badge_to_dict_def load_record_def load_badge_def)

text \<open>
  C5, amended. Writing the store and reading it back gives every aggregate back field for
  field, badges included, except that a record without category scores comes back with the
  empty dictionary for them; when every record carries its category scores, the store
  read back is the store written. The keys of the store are distinct, as those of a
  dictionary are.
\<close>

theorem save_load_roundtrip:
  assumes "distinct (map fst (progress_data m))"
  shows "load_data (data_file (save_data m))
           = Loaded (map (\<lambda>(uid, p). (uid, stored_progress p)) (progress_data m))
         \<and> ((\<forall>(uid, p) \<in> set (progress_data m).
                \<forall>r \<in> set (analysis_records p). category_scores r \<noteq> None)
              \<longrightarrow> load_data (data_file (save_data m)) = Loaded (progress_data m))"
proof -
  have s: "data_file (save_data m)
             = Content (JObj (map (\<lambda>(uid, progress). (uid, user_dict progress)) (progress_data m)))"
    using save_fold[OF assms, of "[]"] by (simp add: save_data_def Let_def)
  have l: "load_data (data_file (save_data m))
             = Loaded (map (\<lambda>(uid, p). (uid, stored_progress p)) (progress_data m))"
    using load_items_saved[OF assms, of "[]"] by (simp add: s load_data_def)
  have "map (\<lambda>(uid, p). (uid, stored_progress p)) (progress_data m) = progress_data m"
    if "\<forall>(uid, p) \<in> set (progress_data m). \<forall>r \<in> set (analysis_records p). category_scores r \<noteq> None"
  proof (rule map_idI)
    fix x assume x: "x \<in> set (progress_data m)"
    obtain uid p where xp: "x = (uid, p)" by (cases x)
    have "stored_progress p = p"
      using that x xp by (intro stored_progress_id) auto
    then show "(case x of (uid, p) \<Rightarrow> (uid, stored_progress p)) = x"
      by (simp add: xp)
  qed
  then show ?thesis using l by simp
qed

theorem save_load_roundtrip_witness:
  "load_data (data_file (save_data
      \<lparr>progress_data =
         [(''u'', \<lparr>user_id = ''u'', total_analyses = 1, current_level = 1, experience_points = 25,
                  analysis_records =
                    [\<lparr>session_id = ''s1'', date = 1001, overall_score = 85, angle = ''side'',
                      category_scores = Some [(''stance'', 90), (''balance'', 70)]\<rparr>],
                  badges =
                    [\<lparr>badge_id = ''first_analysis'', name = ''n'', description = ''d'',
                      earned_date = 1003, icon = ''i''\<rparr>],
                  created_date = 1000, last_analysis_date = Some 1002\<rparr>)],
       data_file = Missing\<rparr>))
   = Loaded
       [(''u'', \<lparr>user_id = ''u'', total_analyses = 1, current_level = 1, experience_points = 25,
                analysis_records =
                  [\<lparr>session_id = ''s1'', date = 1001, overall_score = 85, angle = ''side'',
                    category_scores = Some [(''stance'', 90), (''balance'', 70)]\<rparr>],
                badges =
                  [\<lparr>badge_id = ''first_analysis'', name = ''n'', description = ''d'',
                    earned_date = 1003, icon = ''i''\<rparr>],
                created_date = 1000, last_analysis_date = Some 1002\<rparr>)]"
  using save_load_roundtrip[of
      "\<lparr>progress_data =
         [(''u'', \<lparr>user_id = ''u'', total_analyses = 1, current_level = 1, experience_points = 25,
                  analysis_records =
                    [\<lparr>session_id = ''s1'', date = 1001, overall_score = 85, angle = ''side'',
                      category_scores = Some [(''stance'', 90), (''balance'', 70)]\<rparr>],
                  badges =
                    [\<lparr>badge_id = ''first_analysis'', name = ''n'', description = ''d'',
                      earned_date = 1003, icon = ''i''\<rparr>],
                  created_date = 1000, last_analysis_date = Some 1002\<rparr>)],
       data_file = Missing\<rparr>"]
  by (simp add: stored_progress_def stored_record_def)

text \<open>
  C6, as stated: the change rate reported is \<open>(last - first) / first * 100\<close>, with the single
  guard that a first score of zero gives the rate 0. The guard of the source is
  \<^verbatim>\<open>scores[0] > 0\<close>: a first score below zero gives the rate 0 as well (first input: the
  scores -10, 5, 0, where the stated formula gives -100). And the rate is reported rounded
  to one decimal place (second input: the scores 16, 16.5, 17, where the stated formula
  gives 6.25 and the result holds the double nearest to 6.2).
\<close>

theorem trend_change_rate_counterexample:
  "fst (analyze_improvement_trends (\<lambda>k. 100) 0
      \<lparr>user_id = ''u'', total_analyses = 3, current_level = 1, experience_points = 30,
       analysis_records =
         [\<lparr>session_id = ''a'', date = 100, overall_score = - 10, angle = ''front'', category_scores = None\<rparr>,
          \<lparr>session_id = ''b'', date = 100, overall_score = 5, angle = ''front'', category_scores = None\<rparr>,
          \<lparr>session_id = ''c'', date = 100, overall_score = 0, angle = ''front'', category_scores = None\<rparr>],
       badges = [], created_date = 0, last_analysis_date = Some 100\<rparr>)
   = JObj [(''overall'',
            JObj [(''trend'', JStr ''improving''),
                  (''change_rate'', JFloat 0),
                  (''description'', JStr (get_trend_description ''improving'' 0))])]
   \<and> claimed_change_rate (- 10) 0 = - 100
   \<and> fst (analyze_improvement_trends (\<lambda>k. 100) 0
      \<lparr>user_id = ''u'', total_analyses = 3, current_level = 1, experience_points = 30,
       analysis_records =
         [\<lparr>session_id = ''a'', date = 100, overall_score = 16, angle = ''front'', category_scores = None\<rparr>,
          \<lparr>session_id = ''b'', date = 100, overall_score = 33 / 2, angle = ''front'', category_scores = None\<rparr>,
          \<lparr>session_id = ''c'', date = 100, overall_score = 17, angle = ''front'', category_scores = None\<rparr>],
       badges = [], created_date = 0, last_analysis_date = Some 100\<rparr>)
   = JObj [(''overall'',
            JObj [(''trend'', JStr ''improving''),
                  (''change_rate'', JFloat (double_round (31 / 5))),
                  (''description'', JStr (get_trend_description ''improving'' (25 / 4)))])]
   \<and> claimed_change_rate 16 17 = 25 / 4
   \<and> double_round (31 / 5) \<noteq> 25 / 4"
proof -
  have v: "float_sub 0 (- 10) = 10" "float_div 10 (- 10) = - 1" "float_mul (- 1) 100 = - 100"
    "float_sub 17 16 = 1" "float_div 1 16 = 1 / 16" "float_mul (1 / 16) 100 = 25 / 4"
    by (simp_all add: float_sub_def float_div_def float_mul_def double_round_def binade_def
          round_half_even_def Let_def)
  have r: "py_round1 0 = 0" "py_round1 (25 / 4) = double_round (31 / 5)"
    by (simp_all add: py_round1_def round_half_even_def double_round_def)
  have d: "double_round (31 / 5) \<noteq> 25 / 4"
    by (simp add: double_round_def binade_def round_half_even_def Let_def)
  show ?thesis
    unfolding analyze_improvement_trends_def Let_def claimed_change_rate_def
    using d by (simp add: timedelta_days_def v r)
qed

text \<open>
  C6, amended. For a user with at least 3 records, at least 2 of them in the trailing 30
  days, the trend analysis takes the scores of the trailing 30 days in order, with
  \<open>first\<close> the first and \<open>last\<close> the last of them. The trend is improving iff
  \<open>last > first\<close>, declining iff \<open>first - last \<ge> 5\<close>, and stable otherwise. The change rate
  is \<open>(last - first) / first * 100\<close> when \<open>first\<close> is above zero and 0 when \<open>first\<close> is zero or
  below; the result reports it rounded to one decimal place, and the description is
  chosen by the trend and the rate before rounding. The subtraction, the division and the
  multiplication are those of floats. For a first score that is not below zero the rate
  before rounding is the one of the specification.
\<close>

theorem trend_classification:
  assumes "length (analysis_records p) \<ge> 3"
    and "length (filter (\<lambda>r. date r \<ge> clk k - timedelta_days 30) (analysis_records p)) \<ge> 2"
  shows "let scores = map overall_score
                        (filter (\<lambda>r. date r \<ge> clk k - timedelta_days 30) (analysis_records p));
             first_score = hd scores;
             last_score = last scores;
             trend = (if last_score > first_score then ''improving''
                      else if float_sub first_score last_score \<ge> 5 then ''declining''
                      else ''stable'');
             change_rate = (if first_score > 0
                            then float_mul (float_div (float_sub last_score first_score) first_score) 100
                            else 0)
         in fst (analyze_improvement_trends clk k p)
              = JObj [(''overall'',
                       JObj [(''trend'', JStr trend),
                             (''change_rate'', JFloat (py_round1 change_rate)),
                             (''description'', JStr (get_trend_description trend change_rate))])]
            \<and> (0 \<le> first_score \<longrightarrow> change_rate = claimed_change_rate first_score last_score)"
proof -
  define recent where
    "recent = filter (\<lambda>r. date r \<ge> clk k - timedelta_days 30) (analysis_records p)"
  define scores where "scores = map overall_score recent"
  have n: "\<not> length (analysis_records p) < 3" "\<not> length recent < 2" "2 \<le> length scores"
    using assms by (simp_all add: recent_def scores_def)
  have ne: "scores \<noteq> []" using n(3) by auto
  have h: "scores ! 0 = hd scores"
    using ne by (simp add: hd_conv_nth)
  have a: "\<bar>float_sub (last scores) (hd scores)\<bar> = float_sub (hd scores) (last scores)"
    if "\<not> last scores > hd scores"
    using that by (intro float_sub_abs) simp
  show ?thesis
    unfolding analyze_improvement_trends_def Let_def recent_def[symmetric] scores_def[symmetric]
    using n a by (auto simp add: h claimed_change_rate_def)
qed

theorem trend_classification_witness:
  "fst (analyze_improvement_trends (\<lambda>k. 100) 0
      \<lparr>user_id = ''u'', total_analyses = 3, current_level = 1, experience_points = 30,
       analysis_records =
         [\<lparr>session_id = ''a'', date = 100, overall_score = 80, angle = ''front'', category_scores = None\<rparr>,
          \<lparr>session_id = ''b'', date = 100, overall_score = 50, angle = ''front'', category_scores = None\<rparr>,
          \<lparr>session_id = ''c'', date = 100, overall_score = 29, angle = ''front'', category_scores = None\<rparr>],
       badges = [], created_date = 0, last_analysis_date = Some 100\<rparr>)
   = JObj [(''overall'',
            JObj [(''trend'', JStr ''declining''),
                  (''change_rate'', JFloat (double_round (- 637 / 10))),
                  (''description'',
                     JStr (get_trend_description ''declining'' (- (8972014882652159 / 2 ^ 47))))])]"
proof -
  have v: "float_sub 80 29 = 51" "float_sub 29 80 = - 51"
    "float_div (- 51) 80 = - (2871044762448691 / 4503599627370496)"
    "float_mul (- (2871044762448691 / 4503599627370496)) 100
       = - (8972014882652159 / 140737488355328)"
    by (simp_all add: float_sub_def float_div_def float_mul_def double_round_def binade_def
          round_half_even_def Let_def)
  have r: "py_round1 (- (8972014882652159 / 140737488355328)) = double_round (- (637 / 10))"
    by (simp add: py_round1_def round_half_even_def)
  show ?thesis
    using trend_classification[of
      "\<lparr>user_id = ''u'', total_analyses = 3, current_level = 1, experience_points = 30,
       analysis_records =
         [\<lparr>session_id = ''a'', date = 100, overall_score = 80, angle = ''front'', category_scores = None\<rparr>,
          \<lparr>session_id = ''b'', date = 100, overall_score = 50, angle = ''front'', category_scores = None\<rparr>,
          \<lparr>session_id = ''c'', date = 100, overall_score = 29, angle = ''front'', category_scores = None\<rparr>],
       badges = [], created_date = 0, last_analysis_date = Some 100\<rparr>" "\<lambda>k. 100" 0]
    by (simp add: timedelta_days_def Let_def claimed_change_rate_def v r)
qed

text \<open>
  C7. \<^verbatim>\<open>award_badge(user_id, badge_id)\<close> returns false and changes nothing, neither an
  aggregate in memory nor the file, when the user is unknown, when the badge id is not in
  the catalog, or when the user already holds a badge with that id. It returns true only
  for a known user and a catalog badge the user does not hold yet, and then that badge is
  appended to the user's collection and the store is saved.
\<close>

theorem award_badge_refusals:
  "((map_of (progress_data m) uid = None
       \<or> map_of badge_definitions bid = None
       \<or> (\<exists>p. map_of (progress_data m) uid = Some p \<and> bid \<in> badge_id ` set (badges p)))
      \<longrightarrow> award_badge clk m uid bid = (m, False))
   \<and> (snd (award_badge clk m uid bid) \<longrightarrow>
        (\<exists>p bdef. map_of (progress_data m) uid = Some p
           \<and> map_of badge_definitions bid = Some bdef
           \<and> bid \<notin> badge_id ` set (badges p)
           \<and> fst (award_badge clk m uid bid) =
               save_data (m\<lparr>progress_data :=
                 AList.update uid
                   (p\<lparr>badges := badges p @
                       [\<lparr>badge_id = bid, name = def_name bdef, description = def_description bdef,
                         earned_date = clk 0, icon = def_icon bdef\<rparr>]\<rparr>)
                   (progress_data m)\<rparr>)))"
proof (intro conjI impI)
  assume "map_of (progress_data m) uid = None
       \<or> map_of badge_definitions bid = None
       \<or> (\<exists>p. map_of (progress_data m) uid = Some p \<and> bid \<in> badge_id ` set (badges p))"
  then show "award_badge clk m uid bid = (m, False)" by (rule award_badge_False)
next
  assume "snd (award_badge clk m uid bid)"
  then obtain p bdef where s: "map_of (progress_data m) uid = Some p"
    "map_of badge_definitions bid = Some bdef" "bid \<notin> badge_id ` set (badges p)"
    using award_badge_success by blast
  show "\<exists>p bdef. map_of (progress_data m) uid = Some p
           \<and> map_of badge_definitions bid = Some bdef
           \<and> bid \<notin> badge_id ` set (badges p)
           \<and> fst (award_badge clk m uid bid) =
               save_data (m\<lparr>progress_data :=
                 AList.update uid
                   (p\<lparr>badges := badges p @
                       [\<lparr>badge_id = bid, name = def_name bdef, description = def_description bdef,
                         earned_date = clk 0, icon = def_icon bdef\<rparr>]\<rparr>)
                   (progress_data m)\<rparr>)"
    using s award_badge_True[OF s, of clk] by auto
qed

theorem award_badge_refusals_witness:
  "award_badge (\<lambda>k. 1000 + int k) \<lparr>progress_data = [], data_file = Missing\<rparr> ''nobody'' ''first_analysis''
     = (\<lparr>progress_data = [], data_file = Missing\<rparr>, False)
   \<and> snd (award_badge (\<lambda>k. 1000 + int k)
        \<lparr>progress_data = [(''u'', fst (new_UserProgress (\<lambda>k. 5 + int k) 0 ''u''))], data_file = Missing\<rparr>
        ''u'' ''dedicated_student'')
   \<and> (\<exists>p bdef.
        map_of [(''u'', fst (new_UserProgress (\<lambda>k. 5 + int k) 0 ''u''))] ''u'' = Some p
        \<and> map_of badge_definitions ''dedicated_student'' = Some bdef
        \<and> ''dedicated_student'' \<notin> badge_id ` set (badges p))"
proof -
  let ?clk = "\<lambda>k. 1000 + int k"
  let ?m0 = "\<lparr>progress_data = [], data_file = Missing\<rparr>"
  let ?m1 = "\<lparr>progress_data = [(''u'', fst (new_UserProgress (\<lambda>k. 5 + int k) 0 ''u''))],
              data_file = Missing\<rparr>"
  have a: "award_badge ?clk ?m0 ''nobody'' ''first_analysis'' = (?m0, False)"
    using award_badge_refusals[of ?m0 "''nobody''" "''first_analysis''" ?clk] by simp
  have s: "snd (award_badge ?clk ?m1 ''u'' ''dedicated_student'')"
    by (simp add: award_badge_def award_badge_internal_def badge_definitions_def
          new_UserProgress_def Let_def)
  have "\<exists>p bdef. map_of (progress_data ?m1) ''u'' = Some p
           \<and> map_of badge_definitions ''dedicated_student'' = Some bdef
           \<and> ''dedicated_student'' \<notin> badge_id ` set (badges p)"
    using s award_badge_refusals[of ?m1 "''u''" "''dedicated_student''" ?clk] by blast
  then show ?thesis
    using a s by simp
qed

text \<open>
  C8. The condition \<^verbatim>\<open>all_categories_above_80\<close> of the catalog badge
  \<^verbatim>\<open>improvement_champion\<close> evaluates to false on every aggregate, so the automatic badge
  evaluator never awards that badge: neither one run of the evaluator nor any sequence of
  \<^verbatim>\<open>add_analysis_record\<close> calls changes the entries with that id that a user holds.
\<close>

theorem improvement_champion_never_auto_awarded:
  "map_option condition (map_of badge_definitions ''improvement_champion'')
     = Some ''all_categories_above_80''
   \<and> fst (check_badge_condition clk k p ''all_categories_above_80'') = False
   \<and> entries_of ''improvement_champion'' (badges (fst (check_auto_badges clk k p)))
       = entries_of ''improvement_champion'' (badges p)
   \<and> held (run_calls m calls) uid ''improvement_champion'' = held m uid ''improvement_champion''"
proof -
  have "map_option condition (map_of badge_definitions ''improvement_champion'')
          = Some ''all_categories_above_80''"
    by (simp add: badge_definitions_def)
  moreover have "fst (check_badge_condition clk k p ''all_categories_above_80'') = False"
    by (simp add: check_badge_condition_simps)
  ultimately show ?thesis
    using check_auto_badges_no_champion[of clk k p] run_calls_no_champion[of m calls uid]
    by simp
qed

text \<open>
  C9. Whatever the score (below zero and above 100 included), the experience of a record is
  between 10 and 30, so every call of \<^verbatim>\<open>add_analysis_record\<close> raises the experience points of
  its user, by at least 10 and at most 30. The points before the call are those of the
  stored aggregate, or the 0 of the aggregate the call creates.
\<close>

theorem experience_gain_bounds:
  "10 \<le> calculate_experience_points score \<and> calculate_experience_points score \<le> 30
   \<and> (\<exists>p'. map_of (progress_data (fst (add_analysis_record clk m uid sid score ang cats))) uid = Some p'
          \<and> experience_points p' = experience_points (progress_of clk m uid) + calculate_experience_points score
          \<and> experience_points (progress_of clk m uid) < experience_points p'
          \<and> experience_points (progress_of clk m uid) + 10 \<le> experience_points p'
          \<and> experience_points p' \<le> experience_points (progress_of clk m uid) + 30)"
proof -
  obtain p5 where m5: "map_of (progress_data (fst (add_analysis_record clk m uid sid score ang cats))) uid = Some p5"
    and e5: "experience_points p5 = experience_points (progress_of clk m uid) + calculate_experience_points score"
    using add_analysis_record_points[of clk m uid sid score ang cats] by blast
  have r: "10 \<le> calculate_experience_points score" "calculate_experience_points score \<le> 30"
    using experience_range[of score] by simp_all
  show ?thesis
    using m5 e5 r by simp
qed

text \<open>
  C10. For a known user, the \<^verbatim>\<open>score_history\<close> of the snapshot \<^verbatim>\<open>get_user_progress\<close> returns
  holds one entry for each of the last records of the user, in the order of the history,
  and the entry of a record carries the date, the overall score, the angle and the session
  id of that record. The records are all the records when there are 10 or fewer, and the
  last 10 otherwise, the older ones being left out.
\<close>

theorem score_history_last_ten:
  assumes "map_of (progress_data m) uid = Some p"
  shows "\<exists>snapshot older recent.
           get_user_progress clk m uid = Some (JObj snapshot)
         \<and> map_of snapshot ''score_history''
             = Some (JArr (map (\<lambda>r. JObj [(''date'', JIso (date r)),
                                     (''overall_score'', JFloat (overall_score r)),
                                     (''angle'', JStr (angle r)),
                                     (''session_id'', JStr (session_id r))]) recent))
         \<and> analysis_records p = older @ recent
         \<and> length recent = min 10 (length (analysis_records p))"
proof -
  obtain trends k where t: "analyze_improvement_trends clk 0 p = (trends, k)"
    by (cases "analyze_improvement_trends clk 0 p")
  define snapshot where "snapshot =
     [(''user_id'', JStr uid),
      (''total_analyses'', JInt (total_analyses p)),
      (''current_level'', JInt (current_level p)),
      (''experience_points'', JInt (experience_points p)),
      (''badges'', JArr (map Badge_to_dict (badges p))),
      (''score_history'', JArr (get_score_history p)),
      (''improvement_trends'', trends),
      (''next_level_requirements'', get_next_level_requirements (current_level p)),
      (''last_analysis_date'', (case last_analysis_date p of None \<Rightarrow> JNull | Some d \<Rightarrow> JIso d))]"
  define older where "older = take (length (analysis_records p) - 10) (analysis_records p)"
  define recent where "recent = slice_last 10 (analysis_records p)"
  have g: "get_user_progress clk m uid = Some (JObj snapshot)"
    by (simp add: get_user_progress_def assms t snapshot_def Let_def)
  have h: "map_of snapshot ''score_history''
             = Some (JArr (map (\<lambda>r. JObj [(''date'', JIso (date r)),
                                     (''overall_score'', JFloat (overall_score r)),
                                     (''angle'', JStr (angle r)),
                                     (''session_id'', JStr (session_id r))]) recent))"
    by (simp add: snapshot_def get_score_history_def recent_def score_history_entry_def)
  have a: "analysis_records p = older @ recent"
    by (simp add: older_def recent_def slice_last_def)
  have l: "length recent = min 10 (length (analysis_records p))"
    by (simp add: recent_def slice_last_def)
  show ?thesis
    using g h a l by blast
qed

theorem score_history_last_ten_witness:
  "\<exists>snapshot older recent.
      get_user_progress (\<lambda>k. 1000 + int k)
        \<lparr>progress_data =
           [(''u'', \<lparr>user_id = ''u'', total_analyses = 11, current_level = 1, experience_points = 110,
                    analysis_records =
                      map (\<lambda>t. \<lparr>session_id = ''s'', date = int t, overall_score = 50, angle = ''front'',
                                 category_scores = None\<rparr>) [1..<12],
                    badges = [], created_date = 0, last_analysis_date = Some 11\<rparr>)],
         data_file = Missing\<rparr> ''u'' = Some (JObj snapshot)
    \<and> map_of snapshot ''score_history''
        = Some (JArr (map (\<lambda>r. JObj [(''date'', JIso (date r)),
                                     (''overall_score'', JFloat (overall_score r)),
                                     (''angle'', JStr (angle r)),
                                     (''session_id'', JStr (session_id r))]) recent))
    \<and> map (\<lambda>t. \<lparr>session_id = ''s'', date = int t, overall_score = 50, angle = ''front'',
                  category_scores = None\<rparr>) [1..<12] = older @ recent
    \<and> length recent = 10"
  using score_history_last_ten[of
      "\<lparr>progress_data =
           [(''u'', \<lparr>user_id = ''u'', total_analyses = 11, current_level = 1, experience_points = 110,
                    analysis_records =
                      map (\<lambda>t. \<lparr>session_id = ''s'', date = int t, overall_score = 50, angle = ''front'',
                                 category_scores = None\<rparr>) [1..<12],
                    badges = [], created_date = 0, last_analysis_date = Some 11\<rparr>)],
         data_file = Missing\<rparr>" "''u''" _ "\<lambda>k. 1000 + int k"]
  by simp

end
